theory Spec2Isabelle
  imports Main "HOL-Library.Word"
begin

unbundle bit_operations_syntax

section \<open>Values, errors and the host environment\<close>

text \<open>
  The key manager of \<^verbatim>\<open>src/modules/KeyManager.js\<close> works on Node buffers and on
  strings, and reads a keystore back from parsed JSON, so a value may be of any
  JavaScript type at the places where the source tests \<^verbatim>\<open>!str\<close> or
  \<^verbatim>\<open>str.constructor !== String\<close>.  A buffer is a list of bytes; a string is the
  list of the bytes of its UTF-8 form; an object is the list of its own
  properties in insertion order.
\<close>

type_synonym byte = "8 word"
type_synonym bytes = "byte list"

datatype val =
    Undefined
  | Null
  | Boolean bool
  | Number int
  | Str string
  | Buf bytes
  | Arr "val list"
  | Obj "(string \<times> val) list"

text \<open>
  Every \<^verbatim>\<open>throw\<close> of the module is a constructor:
  \<^item> \<open>Error m\<close> is \<^verbatim>\<open>new Error(m)\<close> with a literal message;
  \<^item> \<open>NotAvailable a\<close> is \<^verbatim>\<open>new Error(a + " is not available")\<close>;
  \<^item> \<open>ErrorImportingKeyfile e\<close> is \<^verbatim>\<open>new Error("Error importing keyfile - " + e)\<close>;
  \<^item> \<open>TypeError m\<close> is what the runtime raises on a value of the wrong type;
  \<^item> \<open>HostError m\<close> is whatever an external function (crypto provider, base-58,
    JSON, file system) raises.
\<close>

datatype error =
    Error string
  | NotAvailable val
  | ErrorImportingKeyfile error
  | TypeError string
  | HostError string

datatype encoding = Utf8

record kdf =
  dkLen :: nat
  kdf_n :: nat
  kdf_r :: nat
  kdf_p :: nat

text \<open>
  The packages the module requires (\<^verbatim>\<open>crypto\<close>, \<^verbatim>\<open>keccak\<close>, \<^verbatim>\<open>base-58\<close>,
  \<^verbatim>\<open>blake2\<close>, \<^verbatim>\<open>curve25519-js\<close>, \<^verbatim>\<open>fs\<close>, \<^verbatim>\<open>path\<close>) and the built-ins
  \<^verbatim>\<open>JSON\<close> and \<^verbatim>\<open>Date\<close> are not part of the repository: they are the fields of an
  environment.  \<open>'w\<close> is the state of the outside world (random source, files,
  clock).  \<open>createCipheriv env algo key iv\<close> yields the cipher as the function
  from the data given to \<^verbatim>\<open>update\<close> to the output of \<^verbatim>\<open>update\<close> followed by that of
  \<^verbatim>\<open>final\<close>; its iv is \<open>None\<close> for \<^verbatim>\<open>null\<close>, which the provider accepts for a
  cipher that takes no iv.  \<open>scryptSync env password salt dkLen N r p maxmem\<close>.
\<close>

record 'w env =
  getCiphers :: "string list"
  createCipheriv :: "string \<Rightarrow> bytes \<Rightarrow> bytes option \<Rightarrow> error + (bytes \<Rightarrow> error + bytes)"
  createDecipheriv :: "string \<Rightarrow> bytes \<Rightarrow> bytes option \<Rightarrow> error + (bytes \<Rightarrow> error + bytes)"
  keccak256 :: "bytes \<Rightarrow> bytes"
  scryptSync :: "bytes \<Rightarrow> bytes \<Rightarrow> nat \<Rightarrow> nat \<Rightarrow> nat \<Rightarrow> nat \<Rightarrow> nat \<Rightarrow> error + bytes"
  Base58_encode :: "bytes \<Rightarrow> string"
  Base58_decode :: "string \<Rightarrow> error + bytes"
  blake2b :: "bytes \<Rightarrow> bytes"
  generateKeyPair :: "bytes \<Rightarrow> bytes \<times> bytes"
  curve25519_sign :: "val \<Rightarrow> val \<Rightarrow> bytes \<Rightarrow> error + bytes"
  randomBytes :: "nat \<Rightarrow> 'w \<Rightarrow> bytes \<times> 'w"
  readFileSync :: "'w \<Rightarrow> string \<Rightarrow> error + string"
  writeFileSync :: "'w \<Rightarrow> string \<Rightarrow> string \<Rightarrow> error + 'w"
  JSON_parse :: "string \<Rightarrow> error + val"
  JSON_stringify :: "val \<Rightarrow> string"
  path_join :: "string \<Rightarrow> string \<Rightarrow> string"
  toISOString :: "'w \<Rightarrow> string"

text \<open>Sequencing of calls that may throw: the first error is the result.\<close>

definition bindE :: "error + 'a \<Rightarrow> ('a \<Rightarrow> error + 'b) \<Rightarrow> error + 'b" where
  "bindE m f = (case m of Inl e \<Rightarrow> Inl e | Inr x \<Rightarrow> f x)"

subsection \<open>The JavaScript operations the module relies on\<close>

text \<open>\<^verbatim>\<open>!v\<close> is \<open>\<not> truthy v\<close>: a buffer, array or object is truthy even when empty.\<close>

primrec truthy :: "val \<Rightarrow> bool" where
  "truthy Undefined = False"
| "truthy Null = False"
| "truthy (Boolean b) = b"
| "truthy (Number i) = (i \<noteq> 0)"
| "truthy (Str s) = (s \<noteq> [])"
| "truthy (Buf b) = True"
| "truthy (Arr a) = True"
| "truthy (Obj kvs) = True"

text \<open>
  \<^verbatim>\<open>v.name\<close> for the property names the module reads, none of which a string,
  number, boolean, buffer or array has: reading from \<^verbatim>\<open>undefined\<close> or \<^verbatim>\<open>null\<close>
  throws, an absent property is \<^verbatim>\<open>undefined\<close>.
\<close>

definition get_prop :: "val \<Rightarrow> string \<Rightarrow> error + val" where
  "get_prop v k =
     (case v of
        Undefined \<Rightarrow> Inl (TypeError ''Cannot read property of undefined'')
      | Null \<Rightarrow> Inl (TypeError ''Cannot read property of null'')
      | Obj kvs \<Rightarrow> Inr (case map_of kvs k of None \<Rightarrow> Undefined | Some x \<Rightarrow> x)
      | _ \<Rightarrow> Inr Undefined)"

text \<open>\<^verbatim>\<open>Buffer.from(str, "utf8")\<close>.\<close>

definition utf8 :: "string \<Rightarrow> bytes" where
  "utf8 s = map of_char s"

text \<open>
  An argument of the crypto provider (key, password, salt, data) is a buffer
  or a string, which the provider reads as UTF-8; anything else is a type error.
  The iv may also be \<^verbatim>\<open>null\<close>.
\<close>

definition to_bytes :: "val \<Rightarrow> error + bytes" where
  "to_bytes v =
     (case v of
        Buf b \<Rightarrow> Inr b
      | Str s \<Rightarrow> Inr (utf8 s)
      | _ \<Rightarrow> Inl (TypeError ''argument must be a string or a buffer''))"

definition to_iv :: "val \<Rightarrow> error + bytes option" where
  "to_iv v =
     (case v of
        Null \<Rightarrow> Inr None
      | Buf b \<Rightarrow> Inr (Some b)
      | Str s \<Rightarrow> Inr (Some (utf8 s))
      | _ \<Rightarrow> Inl (TypeError ''iv must be a string, a buffer or null''))"

text \<open>\<^verbatim>\<open>v.slice(a, b)\<close> for \<open>0 \<le> a \<le> b\<close>: only buffers, strings and arrays have it.\<close>

definition js_slice :: "val \<Rightarrow> nat \<Rightarrow> nat \<Rightarrow> error + val" where
  "js_slice v i j =
     (case v of
        Buf b \<Rightarrow> Inr (Buf (take (j - i) (drop i b)))
      | Str s \<Rightarrow> Inr (Str (take (j - i) (drop i s)))
      | Arr a \<Rightarrow> Inr (Arr (take (j - i) (drop i a)))
      | _ \<Rightarrow> Inl (TypeError ''slice is not a function''))"

text \<open>\<^verbatim>\<open>Buffer.concat(list)\<close>: every element has to be a buffer.\<close>

primrec Buffer_concat :: "val list \<Rightarrow> error + bytes" where
  "Buffer_concat [] = Inr []"
| "Buffer_concat (v # vs) =
     (case v of
        Buf b \<Rightarrow> bindE (Buffer_concat vs) (\<lambda>r. Inr (b @ r))
      | _ \<Rightarrow> Inl (TypeError ''list argument must be an Array of Buffers''))"

text \<open>\<^verbatim>\<open>a.equals(b)\<close>: a method of buffers, whose argument has to be a buffer.\<close>

definition Buffer_equals :: "val \<Rightarrow> val \<Rightarrow> error + bool" where
  "Buffer_equals u v =
     (case u of
        Buf a \<Rightarrow>
          (case v of
             Buf b \<Rightarrow> Inr (a = b)
           | _ \<Rightarrow> Inl (TypeError ''otherBuffer must be a Buffer''))
      | _ \<Rightarrow> Inl (TypeError ''equals is not a function''))"

text \<open>
  \<^verbatim>\<open>Base58.encode(v)\<close> on a buffer, as the module calls it; the model reports any
  other argument as a type error.
\<close>

definition Base58_encode_val :: "'w env \<Rightarrow> val \<Rightarrow> error + val" where
  "Base58_encode_val env v =
     (case v of
        Buf b \<Rightarrow> Inr (Str (Base58_encode env b))
      | _ \<Rightarrow> Inl (TypeError ''Base58.encode expects a buffer''))"

text \<open>\<^verbatim>\<open>s.split(c)\<close> and \<^verbatim>\<open>parts.join(sep)\<close> on strings.\<close>

fun split :: "char \<Rightarrow> string \<Rightarrow> string list" where
  "split c [] = [[]]"
| "split c (x # xs) =
     (if x = c then [] # split c xs
      else (case split c xs of [] \<Rightarrow> [[x]] | p # ps \<Rightarrow> (x # p) # ps))"

fun join :: "string \<Rightarrow> string list \<Rightarrow> string" where
  "join sep [] = []"
| "join sep [p] = p"
| "join sep (p # q # ps) = p @ sep @ join sep (q # ps)"

section \<open>Generic key methods\<close>

text \<open>
  \<^verbatim>\<open>str2buf(str, enc)\<close>: anything falsy or not a string is returned as it is, so the
  empty string stays a string; a string is decoded as UTF-8 when an encoding is
  given and as Base58 otherwise.
\<close>

definition str2buf :: "'w env \<Rightarrow> val \<Rightarrow> encoding option \<Rightarrow> error + val" where
  "str2buf env str enc =
     (case str of
        Str s \<Rightarrow>
          (if \<not> truthy str then Inr str
           else (case enc of
                   Some e \<Rightarrow> Inr (Buf (utf8 s))
                 | None \<Rightarrow> bindE (Base58_decode env s) (\<lambda>b. Inr (Buf b))))
      | _ \<Rightarrow> Inr str)"

definition isCipherAvailable :: "'w env \<Rightarrow> val \<Rightarrow> bool" where
  "isCipherAvailable env cipher = list_ex (\<lambda>name. Str name = cipher) (getCiphers env)"

definition encrypt :: "'w env \<Rightarrow> val \<Rightarrow> val \<Rightarrow> val \<Rightarrow> val \<Rightarrow> error + val" where
  "encrypt env plaintext key ivv algo =
     (case algo of
        Str name \<Rightarrow>
          (if \<not> isCipherAvailable env algo then Inl (NotAvailable algo)
           else
             bindE (str2buf env key None) (\<lambda>k.
             bindE (str2buf env ivv None) (\<lambda>i.
             bindE (to_bytes k) (\<lambda>kb.
             bindE (to_iv i) (\<lambda>ib.
             bindE (createCipheriv env name kb ib) (\<lambda>cipher.
             bindE (str2buf env plaintext None) (\<lambda>p.
             bindE (to_bytes p) (\<lambda>pb.
             bindE (cipher pb) (\<lambda>ciphertext. Inr (Buf ciphertext))))))))))
      | _ \<Rightarrow> Inl (NotAvailable algo))"

definition decrypt :: "'w env \<Rightarrow> val \<Rightarrow> val \<Rightarrow> val \<Rightarrow> val \<Rightarrow> error + val" where
  "decrypt env ciphertext key ivv algo =
     (case algo of
        Str name \<Rightarrow>
          (if \<not> isCipherAvailable env algo then Inl (NotAvailable algo)
           else
             bindE (str2buf env key None) (\<lambda>k.
             bindE (str2buf env ivv None) (\<lambda>i.
             bindE (to_bytes k) (\<lambda>kb.
             bindE (to_iv i) (\<lambda>ib.
             bindE (createDecipheriv env name kb ib) (\<lambda>decipher.
             bindE (str2buf env ciphertext None) (\<lambda>c.
             bindE (to_bytes c) (\<lambda>cb.
             bindE (decipher cb) (\<lambda>plaintext. Inr (Buf plaintext))))))))))
      | _ \<Rightarrow> Inl (NotAvailable algo))"

text \<open>
  \<^verbatim>\<open>getMAC(derivedKey, ciphertext)\<close>: \<^verbatim>\<open>undefined\<close> when an argument is
  \<^verbatim>\<open>undefined\<close> or \<^verbatim>\<open>null\<close> (the function falls off its end).
\<close>

definition getMAC :: "'w env \<Rightarrow> val \<Rightarrow> val \<Rightarrow> error + val" where
  "getMAC env derivedKey ciphertext =
     (if derivedKey \<noteq> Undefined \<and> derivedKey \<noteq> Null \<and>
         ciphertext \<noteq> Undefined \<and> ciphertext \<noteq> Null
      then
        bindE (str2buf env derivedKey None) (\<lambda>dk.
        bindE (js_slice dk 16 32) (\<lambda>half.
        bindE (str2buf env ciphertext None) (\<lambda>ct.
        bindE (Buffer_concat [half, ct]) (\<lambda>msg.
        Inr (Buf (keccak256 env msg))))))
      else Inr Undefined)"

definition deriveKey :: "'w env \<Rightarrow> val \<Rightarrow> val \<Rightarrow> kdf \<Rightarrow> error + val" where
  "deriveKey env passwd saltv kdfPs =
     (if passwd = Undefined \<or> passwd = Null \<or> \<not> truthy saltv
      then Inl (Error ''Must provide password and salt to derive a key'')
      else
        bindE (str2buf env passwd (Some Utf8)) (\<lambda>pw.
        bindE (str2buf env saltv None) (\<lambda>sl.
        bindE (to_bytes pw) (\<lambda>pwb.
        bindE (to_bytes sl) (\<lambda>slb.
        bindE (scryptSync env pwb slb (dkLen kdfPs) (kdf_n kdfPs) (kdf_r kdfPs) (kdf_p kdfPs)
                 (2 * 128 * kdf_n kdfPs * kdf_r kdfPs)) (\<lambda>dk.
        Inr (Buf dk)))))))"

text \<open>
  The key object of \<^verbatim>\<open>create\<close>; \<^verbatim>\<open>dump\<close> passes \<^verbatim>\<open>marshal\<close> one with the two keys
  only.
\<close>

record keyObject =
  publicKey :: val
  privateKey :: val
  iv :: val
  salt :: val

text \<open>
  \<^verbatim>\<open>marshal(derivedKey, keyObject, salt, iv, algo)\<close>.  The properties of the
  object are listed in the order in which the source sets them: \<^verbatim>\<open>kdf\<close> and
  \<^verbatim>\<open>kdfSalt\<close> are assigned after the literal.
\<close>

definition marshal :: "'w env \<Rightarrow> val \<Rightarrow> keyObject \<Rightarrow> val \<Rightarrow> val \<Rightarrow> string \<Rightarrow> error + val" where
  "marshal env derivedKey keyObj saltv ivv algo =
     bindE (encrypt env (privateKey keyObj) derivedKey ivv (Str algo)) (\<lambda>ciphertext.
     bindE (Base58_encode_val env (publicKey keyObj)) (\<lambda>publicKeyId.
     bindE (Base58_encode_val env ciphertext) (\<lambda>cipherText.
     bindE (Base58_encode_val env ivv) (\<lambda>iv58.
     bindE (getMAC env derivedKey ciphertext) (\<lambda>m.
     bindE (Base58_encode_val env m) (\<lambda>mac.
     bindE (Base58_encode_val env saltv) (\<lambda>kdfSalt.
     Inr (Obj [(''publicKeyId'', publicKeyId),
               (''crypto'', Obj [(''cipher'', Str algo),
                                 (''cipherText'', cipherText),
                                 (''cipherParams'', Obj [(''iv'', iv58)]),
                                 (''mac'', mac),
                                 (''kdf'', Str ''scrypt''),
                                 (''kdfSalt'', kdfSalt)])]))))))))"

record options =
  cipher :: string
  ivBytes :: nat
  keyBytes :: nat
  scrypt :: kdf
  kdfParams :: "kdf option"

definition defaultOptions :: options where
  "defaultOptions =
     \<lparr>cipher = ''aes-256-ctr'', ivBytes = 16, keyBytes = 32,
      scrypt = \<lparr>dkLen = 32, kdf_n = 2 ^ 18, kdf_r = 8, kdf_p = 1\<rparr>,
      kdfParams = None\<rparr>"

text \<open>
  \<^verbatim>\<open>create(params)\<close> without a callback.  The three draws from the random source
  are made in the order of the source: the seed of the key pair, then the iv,
  then the salt.
\<close>

definition create :: "'w env \<Rightarrow> options \<Rightarrow> 'w \<Rightarrow> keyObject \<times> 'w" where
  "create env params w =
     (let (seed, w1) = randomBytes env (keyBytes params + ivBytes params + keyBytes params) w;
          (pub, priv) = generateKeyPair env (blake2b env seed);
          (r2, w2) = randomBytes env (keyBytes params + ivBytes params + keyBytes params) w1;
          (r3, w3) = randomBytes env (keyBytes params + ivBytes params) w2
      in (\<lparr>publicKey = Buf pub, privateKey = Buf priv,
           iv = Buf (take (ivBytes params) (blake2b env r2)),
           salt = Buf (blake2b env r3)\<rparr>, w3))"

text \<open>\<^verbatim>\<open>dump(password, keyObject, options)\<close> without a callback.\<close>

definition dump :: "'w env \<Rightarrow> val \<Rightarrow> keyObject \<Rightarrow> options \<Rightarrow> error + val" where
  "dump env passwd keyObj opts =
     (let kdfPs = (case kdfParams opts of Some k \<Rightarrow> k | None \<Rightarrow> scrypt opts) in
      bindE (str2buf env (iv keyObj) None) (\<lambda>ivv.
      bindE (str2buf env (salt keyObj) None) (\<lambda>saltv.
      bindE (str2buf env (privateKey keyObj) None) (\<lambda>priv.
      bindE (str2buf env (publicKey keyObj) None) (\<lambda>pub.
      bindE (deriveKey env passwd saltv kdfPs) (\<lambda>derivedKey.
      marshal env derivedKey
        \<lparr>publicKey = pub, privateKey = priv, iv = Undefined, salt = Undefined\<rparr>
        saltv ivv (cipher opts)))))))"

definition verifyAndDecrypt :: "'w env \<Rightarrow> val \<Rightarrow> val \<Rightarrow> val \<Rightarrow> val \<Rightarrow> val \<Rightarrow> error + val" where
  "verifyAndDecrypt env derivedKey ivv ciphertext mac algo =
     bindE (getMAC env derivedKey ciphertext) (\<lambda>m.
     bindE (Buffer_equals m mac) (\<lambda>same.
     if \<not> same then Inl (Error ''message authentication code mismatch'')
     else decrypt env ciphertext derivedKey ivv algo))"

text \<open>\<^verbatim>\<open>recover(password, keyStorage, kdfParams)\<close> without a callback.\<close>

definition recover :: "'w env \<Rightarrow> val \<Rightarrow> val \<Rightarrow> kdf \<Rightarrow> error + val" where
  "recover env passwd keyStore kdfPs =
     bindE (get_prop keyStore ''crypto'') (\<lambda>c1.
     bindE (get_prop c1 ''cipherParams'') (\<lambda>cp.
     bindE (get_prop cp ''iv'') (\<lambda>iv58.
     bindE (str2buf env iv58 None) (\<lambda>ivv.
     bindE (get_prop keyStore ''crypto'') (\<lambda>c2.
     bindE (get_prop c2 ''kdfSalt'') (\<lambda>salt58.
     bindE (str2buf env salt58 None) (\<lambda>saltv.
     bindE (get_prop keyStore ''crypto'') (\<lambda>c3.
     bindE (get_prop c3 ''cipherText'') (\<lambda>ct58.
     bindE (str2buf env ct58 None) (\<lambda>ciphertext.
     bindE (get_prop keyStore ''crypto'') (\<lambda>c4.
     bindE (get_prop c4 ''mac'') (\<lambda>mac58.
     bindE (str2buf env mac58 None) (\<lambda>mac.
     bindE (get_prop keyStore ''crypto'') (\<lambda>c5.
     bindE (get_prop c5 ''cipher'') (\<lambda>algo.
     bindE (deriveKey env passwd saltv kdfPs) (\<lambda>derivedKey.
     verifyAndDecrypt env derivedKey ivv ciphertext mac algo))))))))))))))))"

text \<open>
  The values that \<open>recover\<close> hands to \<open>verifyAndDecrypt\<close>: the same steps up to
  and including the key derivation.
\<close>

definition recover_inputs :: "'w env \<Rightarrow> val \<Rightarrow> val \<Rightarrow> kdf \<Rightarrow> error + (val \<times> val \<times> val \<times> val \<times> val)" where
  "recover_inputs env passwd keyStore kdfPs =
     bindE (get_prop keyStore ''crypto'') (\<lambda>c1.
     bindE (get_prop c1 ''cipherParams'') (\<lambda>cp.
     bindE (get_prop cp ''iv'') (\<lambda>iv58.
     bindE (str2buf env iv58 None) (\<lambda>ivv.
     bindE (get_prop keyStore ''crypto'') (\<lambda>c2.
     bindE (get_prop c2 ''kdfSalt'') (\<lambda>salt58.
     bindE (str2buf env salt58 None) (\<lambda>saltv.
     bindE (get_prop keyStore ''crypto'') (\<lambda>c3.
     bindE (get_prop c3 ''cipherText'') (\<lambda>ct58.
     bindE (str2buf env ct58 None) (\<lambda>ciphertext.
     bindE (get_prop keyStore ''crypto'') (\<lambda>c4.
     bindE (get_prop c4 ''mac'') (\<lambda>mac58.
     bindE (str2buf env mac58 None) (\<lambda>mac.
     bindE (get_prop keyStore ''crypto'') (\<lambda>c5.
     bindE (get_prop c5 ''cipher'') (\<lambda>algo.
     bindE (deriveKey env passwd saltv kdfPs) (\<lambda>derivedKey.
     Inr (derivedKey, ivv, ciphertext, mac, algo)))))))))))))))))"

text \<open>
  \<^verbatim>\<open>generateKeystoreFilename(publicKey)\<close>; \<open>toISOString env w\<close> is
  \<^verbatim>\<open>new Date().toISOString()\<close>.
\<close>

definition generateKeystoreFilename :: "'w env \<Rightarrow> val \<Rightarrow> 'w \<Rightarrow> error + string" where
  "generateKeystoreFilename env pubKey w =
     (case pubKey of
        Str s \<Rightarrow> Inr (join ''-'' (split CHR '':'' (toISOString env w @ ''-'' @ s @ ''.json'')))
      | _ \<Rightarrow> Inl (Error ''PublicKey must be given as a string for the filename''))"

section \<open>The key manager class\<close>

text \<open>
  The fields of an instance; \<open>p_\<close> stands for the \<^verbatim>\<open>#\<close> of a private field.
  The password is a string, as the constructor and \<^verbatim>\<open>unlockKey\<close> document it.
\<close>

record KeyManager =
  pk :: val
  constants :: options
  p_sk :: val
  p_isLocked :: bool
  p_password :: string
  p_keyStorage :: val

text \<open>
  The argument of the constructor: a string, or an object with the optional
  properties \<^verbatim>\<open>password\<close>, \<^verbatim>\<open>keyPath\<close> and \<^verbatim>\<open>constants\<close> (\<open>None\<close> when absent).
\<close>

datatype params =
    ParamString string
  | ParamObject "string option" "string option" "options option"

definition initKeyStorage :: "'w env \<Rightarrow> KeyManager \<Rightarrow> val \<Rightarrow> string \<Rightarrow> error + KeyManager" where
  "initKeyStorage env this keyStore passwd =
     bindE (get_prop keyStore ''publicKeyId'') (\<lambda>pkv.
       let this1 = this\<lparr>pk := pkv, p_isLocked := False, p_password := passwd,
                         p_keyStorage := keyStore\<rparr>
       in if truthy (pk this1)
          then bindE (recover env (Str passwd) keyStore (scrypt (constants this1)))
                 (\<lambda>sk. Inr (this1\<lparr>p_sk := sk\<rparr>))
          else Inr this1)"

definition generateKey :: "'w env \<Rightarrow> KeyManager \<Rightarrow> string \<Rightarrow> 'w \<Rightarrow> (error + KeyManager) \<times> 'w" where
  "generateKey env this passwd w =
     (let (keyObj, w1) = create env (constants this) w
      in (bindE (dump env (Str passwd) keyObj (constants this))
            (\<lambda>keyStore. initKeyStorage env this keyStore passwd), w1))"

definition importFromFile :: "'w env \<Rightarrow> KeyManager \<Rightarrow> string \<Rightarrow> string \<Rightarrow> 'w \<Rightarrow> error + KeyManager" where
  "importFromFile env this filepath passwd w =
     bindE (readFileSync env w filepath) (\<lambda>text.
     bindE (JSON_parse env text) (\<lambda>keyStore.
     initKeyStorage env this keyStore passwd))"

text \<open>
  The constructor after its password check, for the constants, key path and
  password the argument gives: the first \<^verbatim>\<open>initKeyStorage\<close> with an empty key
  storage, then the import when a key path is given and the generation of a new
  key otherwise.  An instance exists only when the constructor returns.
\<close>

definition construct ::
  "'w env \<Rightarrow> options \<Rightarrow> string option \<Rightarrow> string \<Rightarrow> 'w \<Rightarrow> (error + KeyManager) \<times> 'w" where
  "construct env consts keyPath passwd w =
     (let this0 = \<lparr>pk = Undefined, constants = consts, p_sk = Undefined, p_isLocked = False,
                   p_password = [], p_keyStorage = Undefined\<rparr>
      in case initKeyStorage env this0 (Obj [(''publicKeyId'', Str []), (''crypto'', Obj [])]) []
         of Inl e \<Rightarrow> (Inl e, w)
          | Inr this1 \<Rightarrow>
              (if truthy (case keyPath of None \<Rightarrow> Undefined | Some kp \<Rightarrow> Str kp)
               then (case importFromFile env this1 (case keyPath of None \<Rightarrow> [] | Some kp \<Rightarrow> kp)
                            passwd w
                     of Inl err \<Rightarrow> (Inl (ErrorImportingKeyfile err), w)
                      | Inr this2 \<Rightarrow> (Inr this2, w))
               else generateKey env this1 passwd w))"

text \<open>
  \<^verbatim>\<open>new KeyManager(params)\<close>.  The check of the first line is
  \<^verbatim>\<open>params.constructor !== String && !params.password\<close>; a string has none of
  the properties \<^verbatim>\<open>keyPath\<close> and \<^verbatim>\<open>constants\<close>.
\<close>

definition new_KeyManager :: "'w env \<Rightarrow> params \<Rightarrow> 'w \<Rightarrow> (error + KeyManager) \<times> 'w" where
  "new_KeyManager env ps w =
     (case ps of
        ParamString s \<Rightarrow> construct env defaultOptions None s w
      | ParamObject passwd keyPath consts \<Rightarrow>
          (if \<not> truthy (case passwd of None \<Rightarrow> Undefined | Some pw \<Rightarrow> Str pw)
           then (Inl (Error ''A password must be provided at initialization''), w)
           else construct env (case consts of None \<Rightarrow> defaultOptions | Some c \<Rightarrow> c) keyPath
                  (case passwd of None \<Rightarrow> [] | Some pw \<Rightarrow> pw) w))"

definition getKeyStorage :: "KeyManager \<Rightarrow> error + val" where
  "getKeyStorage this =
     (if p_isLocked this
      then Inl (Error ''Key manager is currently locked. Please unlock and try again.'')
      else if \<not> truthy (pk this)
      then Inl (Error ''A key must be initialized before using this key manager'')
      else Inr (p_keyStorage this))"

definition lockKey :: "KeyManager \<Rightarrow> KeyManager" where
  "lockKey this = this\<lparr>p_isLocked := True\<rparr>"

text \<open>
  The methods below return their result (or the error thrown) together with
  the instance as the call leaves it.
\<close>

definition unlockKey :: "KeyManager \<Rightarrow> string \<Rightarrow> (error + unit) \<times> KeyManager" where
  "unlockKey this passwd =
     (if \<not> p_isLocked this then (Inl (Error ''The key is already unlocked''), this)
      else if passwd \<noteq> p_password this then (Inl (Error ''Invalid password''), this)
      else (Inr (), this\<lparr>p_isLocked := False\<rparr>))"

definition sign :: "'w env \<Rightarrow> KeyManager \<Rightarrow> val \<Rightarrow> 'w \<Rightarrow> (error + bytes) \<times> KeyManager \<times> 'w" where
  "sign env this message w =
     (if p_isLocked this
      then (Inl (Error ''The key is currently locked. Please unlock and try again.''), this, w)
      else (case str2buf env (p_sk this) None of
              Inl e \<Rightarrow> (Inl e, this, w)
            | Inr sk \<Rightarrow>
                (case str2buf env message (Some Utf8) of
                   Inl e \<Rightarrow> (Inl e, this, w)
                 | Inr msg \<Rightarrow>
                     (let (rnd, w1) = randomBytes env 64 w
                      in (curve25519_sign env sk msg rnd, this, w1)))))"

definition exportToFile ::
  "'w env \<Rightarrow> KeyManager \<Rightarrow> string option \<Rightarrow> 'w \<Rightarrow> (error + string) \<times> KeyManager \<times> 'w" where
  "exportToFile env this keyPath0 w =
     (let keyPath = (case keyPath0 of None \<Rightarrow> ''keyfiles''
                     | Some kp \<Rightarrow> if truthy (Str kp) then kp else ''keyfiles'')
      in case generateKeystoreFilename env (pk this) w of
           Inl e \<Rightarrow> (Inl e, this, w)
         | Inr outfile \<Rightarrow>
             (case getKeyStorage this of
                Inl e \<Rightarrow> (Inl e, this, w)
              | Inr keyStore \<Rightarrow>
                  (let json = JSON_stringify env keyStore;
                       outpath = path_join env keyPath outfile
                   in case writeFileSync env w outpath json of
                        Inl e \<Rightarrow> (Inl e, this, w)
                      | Inr w1 \<Rightarrow> (Inr outpath, this, w1))))"

text \<open>\<^verbatim>\<open>Object.keys(v)\<close>: the names of the own properties of an object.\<close>

definition own_keys :: "val \<Rightarrow> string list" where
  "own_keys v = (case v of Obj kvs \<Rightarrow> map fst kvs | _ \<Rightarrow> [])"

text \<open>The password the argument of the constructor gives.\<close>

definition given_password :: "params \<Rightarrow> string" where
  "given_password ps =
     (case ps of
        ParamString s \<Rightarrow> s
      | ParamObject passwd keyPath consts \<Rightarrow> (case passwd of None \<Rightarrow> [] | Some pw \<Rightarrow> pw))"

section \<open>A test environment\<close>

text \<open>
  A small, fully computable environment on which the functions above can be
  run: the Base58 alphabet over big-endian numbers, a stream cipher that adds a
  mask made of key and iv, sums as digests, a counter as random source, an
  association list as file system and a fixed clock.  It stands in for the
  packages the module requires wherever a statement below is checked on
  concrete data.
\<close>

definition b58_alphabet :: string where
  "b58_alphabet = ''123456789ABCDEFGHJKLMNPQRSTUVWXYZabcdefghijkmnopqrstuvwxyz''"

fun b58_digits :: "nat \<Rightarrow> string" where
  "b58_digits n = (if n = 0 then [] else b58_digits (n div 58) @ [b58_alphabet ! (n mod 58)])"

fun be_bytes :: "nat \<Rightarrow> bytes" where
  "be_bytes n = (if n = 0 then [] else be_bytes (n div 256) @ [of_nat (n mod 256)])"

definition b58_encode :: "bytes \<Rightarrow> string" where
  "b58_encode b =
     replicate (length (takeWhile (\<lambda>x. x = 0) b)) CHR ''1'' @
     b58_digits (foldl (\<lambda>a x. a * 256 + unat x) 0 b)"

primrec index_from :: "nat \<Rightarrow> string \<Rightarrow> char \<Rightarrow> nat option" where
  "index_from i [] c = None"
| "index_from i (x # xs) c = (if x = c then Some i else index_from (i + 1) xs c)"

primrec b58_value :: "nat \<Rightarrow> string \<Rightarrow> nat option" where
  "b58_value a [] = Some a"
| "b58_value a (c # cs) =
     (case index_from 0 b58_alphabet c of
        None \<Rightarrow> None
      | Some d \<Rightarrow> b58_value (a * 58 + d) cs)"

definition b58_decode :: "string \<Rightarrow> error + bytes" where
  "b58_decode s =
     (case b58_value 0 s of
        None \<Rightarrow> Inl (HostError ''Invalid base58 character'')
      | Some n \<Rightarrow> Inr (replicate (length (takeWhile (\<lambda>c. c = CHR ''1'') s)) 0 @ be_bytes n))"

definition test_cipher ::
  "string \<Rightarrow> bytes \<Rightarrow> bytes option \<Rightarrow> error + (bytes \<Rightarrow> error + bytes)" where
  "test_cipher algo key ivo =
     (case ivo of
        None \<Rightarrow> Inl (HostError ''Invalid initialization vector'')
      | Some ivb \<Rightarrow>
          if key = [] then Inl (HostError ''Invalid key length'')
          else Inr (\<lambda>data. Inr (map (\<lambda>x. x + sum_list (key @ ivb)) data)))"

definition test_decipher ::
  "string \<Rightarrow> bytes \<Rightarrow> bytes option \<Rightarrow> error + (bytes \<Rightarrow> error + bytes)" where
  "test_decipher algo key ivo =
     (case ivo of
        None \<Rightarrow> Inl (HostError ''Invalid initialization vector'')
      | Some ivb \<Rightarrow>
          if key = [] then Inl (HostError ''Invalid key length'')
          else Inr (\<lambda>data. Inr (map (\<lambda>x. x - sum_list (key @ ivb)) data)))"

definition test_digest :: "byte \<Rightarrow> bytes \<Rightarrow> bytes" where
  "test_digest tag b = [tag + sum_list b, of_nat (length b) + (case b of [] \<Rightarrow> 1 | x # xs \<Rightarrow> x)]"

definition ramp :: bytes where
  "ramp = [3, 1, 4, 1, 5, 9, 2, 6, 5, 3, 5, 8, 9, 7, 9, 3, 2, 3, 8, 4,
           6, 2, 6, 4, 3, 3, 8, 3, 2, 7, 9, 5, 0, 2, 8, 8, 4, 1, 9, 7]"

definition test_scrypt ::
  "bytes \<Rightarrow> bytes \<Rightarrow> nat \<Rightarrow> nat \<Rightarrow> nat \<Rightarrow> nat \<Rightarrow> nat \<Rightarrow> error + bytes" where
  "test_scrypt pw sl len N r p maxmem =
     (if length ramp < len then Inl (HostError ''Invalid scrypt parameter'')
      else Inr (map (\<lambda>x. sum_list pw + 3 * sum_list sl + x) (take len ramp)))"

definition test_sign :: "val \<Rightarrow> val \<Rightarrow> bytes \<Rightarrow> error + bytes" where
  "test_sign sk msg rnd =
     bindE (to_bytes sk) (\<lambda>s. bindE (to_bytes msg) (\<lambda>m.
       if s = [] then Inl (HostError ''wrong secret key length'')
       else Inr (s @ m @ take 1 rnd)))"

text \<open>
  The JSON text of a value, for the strings and objects a key storage is made
  of (no character of theirs needs escaping); the test environment writes
  every other value as \<^verbatim>\<open>null\<close>.
\<close>

fun json_text :: "val \<Rightarrow> string" and json_members :: "(string \<times> val) list \<Rightarrow> string" where
  "json_text (Str s) = [CHR 0x22] @ s @ [CHR 0x22]"
| "json_text (Obj kvs) = ''{'' @ json_members kvs @ ''}''"
| "json_text Undefined = ''null''"
| "json_text Null = ''null''"
| "json_text (Boolean b) = (if b then ''true'' else ''false'')"
| "json_text (Number i) = ''null''"
| "json_text (Buf b) = ''null''"
| "json_text (Arr a) = ''null''"
| "json_members [] = []"
| "json_members (kv # kvs) =
     [CHR 0x22] @ fst kv @ [CHR 0x22] @ '':'' @ json_text (snd kv) @
     (if kvs = [] then [] else '','' @ json_members kvs)"

record world =
  counter :: nat
  files :: "(string \<times> string) list"
  clock :: string

definition test_env :: "world env" where
  "test_env =
     \<lparr>getCiphers = [''aes-256-ctr''],
      createCipheriv = test_cipher,
      createDecipheriv = test_decipher,
      keccak256 = test_digest 7,
      scryptSync = test_scrypt,
      Base58_encode = b58_encode,
      Base58_decode = b58_decode,
      blake2b = test_digest 11,
      generateKeyPair = (\<lambda>seed. (map (\<lambda>x. 2 * x + 1) seed, seed)),
      curve25519_sign = test_sign,
      randomBytes = (\<lambda>n w. (map (\<lambda>x. x + of_nat (counter w)) (take n (ramp @ ramp @ ramp)),
                             w\<lparr>counter := counter w + n\<rparr>)),
      readFileSync = (\<lambda>w path. case map_of (files w) path of
                                 None \<Rightarrow> Inl (HostError ''ENOENT: no such file or directory'')
                               | Some text \<Rightarrow> Inr text),
      writeFileSync = (\<lambda>w path text. Inr (w\<lparr>files := (path, text) # files w\<rparr>)),
      JSON_parse = (\<lambda>text. if text = ''{}'' then Inr (Obj [])
                            else Inl (HostError ''SyntaxError: Unexpected token'')),
      JSON_stringify = json_text,
      path_join = (\<lambda>dir file. dir @ ''/'' @ file),
      toISOString = clock\<rparr>"

definition kdf0 :: kdf where
  "kdf0 = \<lparr>dkLen = 32, kdf_n = 4, kdf_r = 1, kdf_p = 1\<rparr>"

definition dk0 :: bytes where
  "dk0 = [29, 27, 30, 27, 31, 35, 28, 32, 31, 29, 31, 34, 35, 33, 35, 29,
          28, 29, 34, 30, 32, 28, 32, 30, 29, 29, 34, 29, 28, 33, 35, 31]"

definition test_world :: world where
  "test_world = \<lparr>counter = 1, files = [(''empty.json'', ''{}'')],
                 clock = ''2020-04-03T10:00:00.000Z''\<rparr>"

text \<open>
  The key object the test environment generates first, the key storage that
  \<^verbatim>\<open>dump\<close> makes of it under the passwords \<^verbatim>\<open>"pw"\<close> and \<^verbatim>\<open>""\<close>, and the
  instance constructed with \<^verbatim>\<open>"pw"\<close>.
\<close>

definition test_keyObject :: keyObject where
  "test_keyObject = \<lparr>publicKey = Buf [191, 169], privateKey = Buf [223, 84],
     iv = Buf [223, 164], salt = Buf [28, 212]\<rparr>"

definition test_keyStorage :: val where
  "test_keyStorage = Obj [(''publicKeyId'', Str ''Fax''),
                (''crypto'',
                 Obj [(''cipher'', Str ''aes-256-ctr''),
                      (''cipherText'', Str ''Hqs''),
                      (''cipherParams'', Obj [(''iv'', Str ''J27'')]),
                      (''mac'', Str ''KQE''), (''kdf'', Str ''scrypt''),
                      (''kdfSalt'', Str ''3CF'')])]"

definition test_keyStorage_empty :: val where
  "test_keyStorage_empty = Obj [(''publicKeyId'', Str ''Fax''),
            (''crypto'',
            Obj [(''cipher'', Str ''aes-256-ctr''),
                 (''cipherText'', Str ''LHf''),
                 (''cipherParams'', Obj [(''iv'', Str ''J27'')]),
                 (''mac'', Str ''Fko''), (''kdf'', Str ''scrypt''),
                 (''kdfSalt'', Str ''3CF'')])]"

definition test_km :: KeyManager where
  "test_km = \<lparr>pk = Str ''Fax'', constants = defaultOptions, p_sk = Buf [223, 84],
              p_isLocked = False, p_password = ''pw'', p_keyStorage = test_keyStorage\<rparr>"

text \<open>The key the test environment derives from the wrong password \<^verbatim>\<open>"pwd"\<close>.\<close>

definition dk_pwd :: bytes where
  "dk_pwd = [30, 28, 31, 28, 32, 36, 29, 33, 32, 30, 32, 35, 36, 34, 36, 30,
             29, 30, 35, 31, 33, 29, 33, 31, 30, 30, 35, 30, 29, 34, 36, 32]"

definition test_km_empty :: KeyManager where
  "test_km_empty = \<lparr>pk = Str ''Fax'', constants = defaultOptions, p_sk = Buf [223, 84],
              p_isLocked = False, p_password = [], p_keyStorage = test_keyStorage_empty\<rparr>"

text \<open>The record \<open>marshal\<close> makes of the key \<open>dk0\<close> and a two-byte private key.\<close>

definition test_record :: val where
  "test_record =
     Obj [(''publicKeyId'', Str ''A''),
          (''crypto'', Obj [(''cipher'', Str ''aes-256-ctr''),
                            (''cipherText'', Str ''JRJ''),
                            (''cipherParams'', Obj [(''iv'', Str ''5'')]),
                            (''mac'', Str ''FFB''),
                            (''kdf'', Str ''scrypt''),
                            (''kdfSalt'', Str ''gs'')])]"

text \<open>
  Material of the sizes \<open>create\<close> produces with the default options: a 32-byte
  salt, a 16-byte iv and a 32-byte key pair; \<open>dk32\<close> is the key the test
  environment derives from the password \<^verbatim>\<open>"pw"\<close> and \<open>salt32\<close>, \<open>ct32\<close> the
  ciphertext of \<open>priv32\<close> under that key and \<open>iv16\<close>.
\<close>

definition salt32 :: bytes where
  "salt32 = [46, 42, 48, 42, 50, 58, 44, 52, 50, 46, 50, 56, 58, 54, 58, 46,
             44, 46, 56, 48, 52, 44, 52, 48, 46, 46, 56, 46, 44, 54, 58, 50]"

definition iv16 :: bytes where
  "iv16 = [16, 10, 19, 10, 22, 34, 13, 25, 22, 16, 22, 31, 34, 28, 34, 16]"

definition priv32 :: bytes where
  "priv32 = [105, 95, 110, 95, 115, 135, 100, 120, 115, 105, 115, 130, 135, 125, 135, 105,
             100, 105, 130, 110, 120, 100, 120, 110, 105, 105, 130, 105, 100, 125, 135, 115]"

definition pub32 :: bytes where
  "pub32 = [22, 8, 29, 8, 36, 64, 15, 43, 36, 22, 36, 57, 64, 50, 64, 22,
            15, 22, 57, 29, 43, 15, 43, 29, 22, 22, 57, 22, 15, 50, 64, 36]"

definition dk32 :: bytes where
  "dk32 = [140, 138, 141, 138, 142, 146, 139, 143, 142, 140, 142, 145, 146, 144, 146, 140,
           139, 140, 145, 141, 143, 139, 143, 141, 140, 140, 145, 140, 139, 144, 146, 142]"

definition ct32 :: bytes where
  "ct32 = [132, 122, 137, 122, 142, 162, 127, 147, 142, 132, 142, 157, 162, 152, 162, 132,
           127, 132, 157, 137, 147, 127, 147, 137, 132, 132, 157, 132, 127, 152, 162, 142]"

text \<open>
  A key file as \<open>importFromFile\<close> may read it: the record \<open>test_record\<close> with the
  empty string as \<^verbatim>\<open>mac\<close>.
\<close>

definition test_record_nomac :: val where
  "test_record_nomac =
     Obj [(''publicKeyId'', Str ''A''),
          (''crypto'', Obj [(''cipher'', Str ''aes-256-ctr''),
                            (''cipherText'', Str ''JRJ''),
                            (''cipherParams'', Obj [(''iv'', Str ''5'')]),
                            (''mac'', Str []),
                            (''kdf'', Str ''scrypt''),
                            (''kdfSalt'', Str ''gs'')])]"

section \<open>Properties\<close>

lemma bindE_Inl [simp]: "bindE (Inl e) f = Inl e"
  by (simp add: bindE_def)

lemma bindE_Inr [simp]: "bindE (Inr x) f = f x"
  by (simp add: bindE_def)

lemma str2buf_Buf [simp]: "str2buf env (Buf b) enc = Inr (Buf b)"
  by (simp add: str2buf_def)

lemma str2buf_Str_nonempty:
  "s \<noteq> [] \<Longrightarrow> str2buf env (Str s) None = bindE (Base58_decode env s) (\<lambda>b. Inr (Buf b))"
  by (simp add: str2buf_def)

lemma str2buf_Str_empty [simp]: "str2buf env (Str []) enc = Inr (Str [])"
  by (simp add: str2buf_def)

lemma to_bytes_simps [simp]:
  "to_bytes (Buf b) = Inr b" "to_bytes (Str s) = Inr (utf8 s)"
  by (simp_all add: to_bytes_def)

lemma to_iv_simps [simp]:
  "to_iv (Buf b) = Inr (Some b)" "to_iv (Str s) = Inr (Some (utf8 s))" "to_iv Null = Inr None"
  by (simp_all add: to_iv_def)

text \<open>
  What \<open>recover\<close> makes of the text that \<open>marshal\<close> stores for a buffer, when
  \<^verbatim>\<open>Base58.decode\<close> inverts \<^verbatim>\<open>Base58.encode\<close> on it: the buffer again, unless the
  text is empty, which \<open>str2buf\<close> leaves a string.
\<close>

lemma stored_text:
  assumes "Base58_decode env (Base58_encode env b) = Inr b" and "Base58_encode env b \<noteq> []"
  shows "str2buf env (Str (Base58_encode env b)) None = Inr (Buf b)"
  using assms by (simp add: str2buf_Str_nonempty)

lemma stored_iv:
  assumes "Base58_decode env (Base58_encode env b) = Inr b"
      and "Base58_encode env b = [] \<longrightarrow> b = []"
  shows "\<exists>v. str2buf env (Str (Base58_encode env b)) None = Inr v \<and> to_iv v = Inr (Some b)"
proof (cases "Base58_encode env b = []")
  case True
  with assms(2) show ?thesis by (simp add: utf8_def)
next
  case False
  with assms(1) show ?thesis by (simp add: str2buf_Str_nonempty)
qed

lemma get_prop_Obj [simp]:
  "get_prop (Obj kvs) k = Inr (case map_of kvs k of None \<Rightarrow> Undefined | Some x \<Rightarrow> x)"
  by (simp add: get_prop_def)

lemma getMAC_Buf [simp]:
  "getMAC env (Buf dk) (Buf ct) = Inr (Buf (keccak256 env (take 16 (drop 16 dk) @ ct)))"
  by (simp add: getMAC_def js_slice_def)

lemma Base58_encode_val_Buf [simp]:
  "Base58_encode_val env (Buf b) = Inr (Str (Base58_encode env b))"
  by (simp add: Base58_encode_val_def)

lemma Buffer_equals_Buf [simp]: "Buffer_equals (Buf a) (Buf b) = Inr (a = b)"
  by (simp add: Buffer_equals_def)

lemma str2buf_idem:
  assumes "str2buf env (Str s) enc = Inr v"
  shows "str2buf env v enc' = Inr v"
  using assms
  by (auto simp: str2buf_def bindE_def split: if_splits option.splits sum.splits)

text \<open>An empty string where the provider expects the iv is read as no bytes.\<close>

lemma decrypt_iv:
  assumes "bindE (str2buf env ivv None) to_iv = Inr (Some ivb)"
  shows "decrypt env (Buf ct) (Buf dk) ivv algo = decrypt env (Buf ct) (Buf dk) (Buf ivb) algo"
  using assms
  by (auto simp: decrypt_def bindE_def split: sum.splits val.splits)

text \<open>The wrappers on buffers, in terms of the packages they call.\<close>

lemma encrypt_Buf:
  assumes "algo \<in> set (getCiphers env)"
  shows "encrypt env (Buf pt) (Buf k) (Buf ivb) (Str algo) =
         bindE (createCipheriv env algo k (Some ivb)) (\<lambda>c. bindE (c pt) (\<lambda>x. Inr (Buf x)))"
  using assms by (auto simp: encrypt_def isCipherAvailable_def list_ex_iff)

lemma decrypt_Buf:
  assumes "algo \<in> set (getCiphers env)"
  shows "decrypt env (Buf ct) (Buf k) (Buf ivb) (Str algo) =
         bindE (createDecipheriv env algo k (Some ivb)) (\<lambda>d. bindE (d ct) (\<lambda>x. Inr (Buf x)))"
  using assms by (auto simp: decrypt_def isCipherAvailable_def list_ex_iff)

lemma deriveKey_bytes:
  assumes "p = Str pw \<and> pwb = utf8 pw \<or> p = Buf pwb"
  shows "deriveKey env p (Buf saltb) kdfPs =
         bindE (scryptSync env pwb saltb (dkLen kdfPs) (kdf_n kdfPs) (kdf_r kdfPs) (kdf_p kdfPs)
                  (2 * 128 * kdf_n kdfPs * kdf_r kdfPs)) (\<lambda>dk. Inr (Buf dk))"
  using assms by (auto simp: deriveKey_def str2buf_def utf8_def)

lemma marshal_Buf:
  assumes "encrypt env (Buf priv) (Buf dk) (Buf ivb) (Str algo) = Inr (Buf ct)"
  shows "marshal env (Buf dk) \<lparr>publicKey = Buf pub, privateKey = Buf priv, iv = x, salt = y\<rparr>
           (Buf saltb) (Buf ivb) algo =
         Inr (Obj [(''publicKeyId'', Str (Base58_encode env pub)),
                   (''crypto'', Obj [(''cipher'', Str algo),
                                     (''cipherText'', Str (Base58_encode env ct)),
                                     (''cipherParams'', Obj [(''iv'', Str (Base58_encode env ivb))]),
                                     (''mac'', Str (Base58_encode env
                                         (keccak256 env (take 16 (drop 16 dk) @ ct)))),
                                     (''kdf'', Str ''scrypt''),
                                     (''kdfSalt'', Str (Base58_encode env saltb))])])"
  using assms by (simp add: marshal_def)

lemma recover_record:
  assumes iv: "\<exists>v. str2buf env (Str i58) None = Inr v \<and> to_iv v = Inr (Some ivb)"
      and sl: "str2buf env (Str s58) None = Inr (Buf saltb)"
      and ct: "str2buf env (Str c58) None = Inr (Buf ct)"
      and mc: "str2buf env (Str m58) None = Inr (Buf mac)"
      and dk: "deriveKey env p (Buf saltb) kdfPs = Inr (Buf dk)"
  shows "recover env p
           (Obj [(''publicKeyId'', pkid),
                 (''crypto'', Obj [(''cipher'', Str algo),
                                   (''cipherText'', Str c58),
                                   (''cipherParams'', Obj [(''iv'', Str i58)]),
                                   (''mac'', Str m58),
                                   (''kdf'', k),
                                   (''kdfSalt'', Str s58)])]) kdfPs =
         (if keccak256 env (take 16 (drop 16 dk) @ ct) = mac
          then decrypt env (Buf ct) (Buf dk) (Buf ivb) (Str algo)
          else Inl (Error ''message authentication code mismatch''))"
proof -
  from iv obtain ivv where ivv: "str2buf env (Str i58) None = Inr ivv"
    and ivb: "to_iv ivv = Inr (Some ivb)"
    by blast
  have d: "decrypt env (Buf ct) (Buf dk) ivv (Str algo) = decrypt env (Buf ct) (Buf dk) (Buf ivb) (Str algo)"
    by (rule decrypt_iv) (simp add: str2buf_idem [OF ivv] ivb)
  show ?thesis
    by (simp add: recover_def verifyAndDecrypt_def ivv sl ct mc dk d)
qed

subsection \<open>The constructor\<close>

lemma initKeyStorage_Inr:
  assumes "initKeyStorage env this keyStore passwd = Inr km"
  shows "\<not> p_isLocked km" and "p_password km = passwd" and "p_keyStorage km = keyStore"
    and "constants km = constants this"
    and "get_prop keyStore ''publicKeyId'' = Inr (pk km)"
  using assms
  by (auto simp: initKeyStorage_def bindE_def Let_def split: sum.splits if_splits)

lemma initKeyStorage_sk:
  assumes "initKeyStorage env this keyStore passwd = Inr km"
  shows "if truthy (pk km)
         then recover env (Str passwd) keyStore (scrypt (constants this)) = Inr (p_sk km)
         else p_sk km = p_sk this"
  using assms
  by (auto simp: initKeyStorage_def bindE_def Let_def split: sum.splits if_splits)

lemma construct_Inr:
  assumes "construct env consts keyPath passwd w = (Inr km, w')"
  shows "\<not> p_isLocked km" and "p_password km = passwd" and "constants km = consts"
proof -
  let ?this1 = "\<lparr>pk = Str [], constants = consts, p_sk = Undefined, p_isLocked = False,
                 p_password = [], p_keyStorage = Obj [(''publicKeyId'', Str []), (''crypto'', Obj [])]\<rparr>"
  have "\<exists>keyStore. initKeyStorage env ?this1 keyStore passwd = Inr km"
    using assms
    by (auto simp: construct_def initKeyStorage_def [of env _ "Obj _"] generateKey_def
          importFromFile_def bindE_def Let_def split: sum.splits if_splits prod.splits)
  then obtain keyStore where "initKeyStorage env ?this1 keyStore passwd = Inr km" ..
  from initKeyStorage_Inr [OF this]
  show "\<not> p_isLocked km" and "p_password km = passwd" and "constants km = consts"
    by simp_all
qed

lemma new_KeyManager_Inr:
  assumes "new_KeyManager env ps w = (Inr km, w')"
  shows "\<not> p_isLocked km" and "p_password km = given_password ps"
  using assms
  by (auto simp: new_KeyManager_def given_password_def
        split: params.splits if_splits option.splits dest: construct_Inr)

lemma construct_generate:
  "construct env consts None passwd w =
     (let r = create env consts w
      in (bindE (dump env (Str passwd) (fst r) consts) (\<lambda>keyStore.
            initKeyStorage env
              \<lparr>pk = Str [], constants = consts, p_sk = Undefined, p_isLocked = False,
                p_password = [],
                p_keyStorage = Obj [(''publicKeyId'', Str []), (''crypto'', Obj [])]\<rparr>
              keyStore passwd), snd r))"
  by (simp add: construct_def initKeyStorage_def [of env _ "Obj _"] generateKey_def Let_def
        split: prod.splits)

lemma relock_unlock:
  assumes "\<not> p_isLocked km"
  shows "unlockKey (lockKey km) (p_password km) = (Inr (), km)"
  using assms by (cases km) (simp add: unlockKey_def lockKey_def)

subsection \<open>The MAC check and the file name\<close>

lemma bindE_assoc: "bindE (bindE m f) g = bindE m (\<lambda>x. bindE (f x) g)"
  by (cases m) simp_all

lemma recover_via_inputs:
  "recover env passwd keyStore kdfPs =
     bindE (recover_inputs env passwd keyStore kdfPs)
       (\<lambda>(derivedKey, ivv, ciphertext, mac, algo).
          verifyAndDecrypt env derivedKey ivv ciphertext mac algo)"
  by (simp add: recover_def recover_inputs_def bindE_assoc)

lemma str2buf_decipher [simp]:
  "str2buf (env\<lparr>createDecipheriv := d\<rparr>) v enc = str2buf env v enc"
  by (simp add: str2buf_def split: val.splits option.splits)

lemma deriveKey_decipher [simp]:
  "deriveKey (env\<lparr>createDecipheriv := d\<rparr>) passwd saltv kdfPs = deriveKey env passwd saltv kdfPs"
  by (simp add: deriveKey_def)

lemma recover_inputs_decipher [simp]:
  "recover_inputs (env\<lparr>createDecipheriv := d\<rparr>) passwd keyStore kdfPs =
   recover_inputs env passwd keyStore kdfPs"
  by (simp add: recover_inputs_def)

lemma getMAC_decipher [simp]:
  "getMAC (env\<lparr>createDecipheriv := d\<rparr>) derivedKey ciphertext = getMAC env derivedKey ciphertext"
  by (simp add: getMAC_def)

lemma verifyAndDecrypt_mismatch:
  assumes "getMAC env derivedKey ciphertext = Inr (Buf m)" and "m \<noteq> mac"
  shows "verifyAndDecrypt env derivedKey ivv ciphertext (Buf mac) algo =
         Inl (Error ''message authentication code mismatch'')"
  using assms by (simp add: verifyAndDecrypt_def)

lemma verifyAndDecrypt_Inr:
  assumes "verifyAndDecrypt env derivedKey ivv ciphertext mac algo = Inr plaintext"
  shows "\<exists>m. mac = Buf m \<and> getMAC env derivedKey ciphertext = Inr (Buf m) \<and>
             decrypt env ciphertext derivedKey ivv algo = Inr plaintext"
  using assms
  by (auto simp: verifyAndDecrypt_def Buffer_equals_def bindE_def
        split: sum.splits val.splits if_splits)

lemma split_not_Nil [simp]: "split c s \<noteq> []"
  by (induction s) (auto split: list.splits)

lemma join_split:
  "join [d] (split c s) = map (\<lambda>x. if x = c then d else x) s"
proof (induction s)
  case Nil
  show ?case by simp
next
  case (Cons x xs)
  obtain p ps where ps: "split c xs = p # ps"
    by (cases "split c xs") simp_all
  show ?case
  proof (cases "x = c")
    case True
    with Cons ps show ?thesis by simp
  next
    case False
    with Cons ps show ?thesis by (cases ps) simp_all
  qed
qed

lemma generateKeystoreFilename_Str:
  "generateKeystoreFilename env (Str s) w =
     Inr (map (\<lambda>x. if x = CHR '':'' then CHR ''-'' else x) (toISOString env w @ ''-'' @ s @ ''.json''))"
  by (simp add: generateKeystoreFilename_def join_split)

lemma exportToFile_instance: "fst (snd (exportToFile env this keyPath w)) = this"
  by (simp add: exportToFile_def Let_def split: sum.splits)

subsection \<open>The shape of the record\<close>

lemma bindE_eq_Inr: "bindE m f = Inr y \<longleftrightarrow> (\<exists>x. m = Inr x \<and> f x = Inr y)"
  by (cases m) simp_all

lemma Base58_encode_val_Inr:
  assumes "Base58_encode_val env v = Inr r"
  shows "\<exists>b. v = Buf b \<and> r = Str (Base58_encode env b)"
  using assms by (auto simp: Base58_encode_val_def split: val.splits)

lemma marshal_Inr:
  assumes "marshal env derivedKey keyObj saltv ivv algo = Inr r"
  shows "\<exists>pub ct ivb mac saltb.
           r = Obj [(''publicKeyId'', Str (Base58_encode env pub)),
                    (''crypto'', Obj [(''cipher'', Str algo),
                                      (''cipherText'', Str (Base58_encode env ct)),
                                      (''cipherParams'', Obj [(''iv'', Str (Base58_encode env ivb))]),
                                      (''mac'', Str (Base58_encode env mac)),
                                      (''kdf'', Str ''scrypt''),
                                      (''kdfSalt'', Str (Base58_encode env saltb))])] \<and>
           publicKey keyObj = Buf pub \<and>
           encrypt env (privateKey keyObj) derivedKey ivv (Str algo) = Inr (Buf ct) \<and>
           ivv = Buf ivb \<and> getMAC env derivedKey (Buf ct) = Inr (Buf mac) \<and> saltv = Buf saltb"
  using assms
proof -
  from assms obtain ciphertext publicKeyId cipherText iv58 m mac kdfSalt where
    e: "encrypt env (privateKey keyObj) derivedKey ivv (Str algo) = Inr ciphertext"
    and b1: "Base58_encode_val env (publicKey keyObj) = Inr publicKeyId"
    and b2: "Base58_encode_val env ciphertext = Inr cipherText"
    and b3: "Base58_encode_val env ivv = Inr iv58"
    and g: "getMAC env derivedKey ciphertext = Inr m"
    and b4: "Base58_encode_val env m = Inr mac"
    and b5: "Base58_encode_val env saltv = Inr kdfSalt"
    and r: "r = Obj [(''publicKeyId'', publicKeyId),
                     (''crypto'', Obj [(''cipher'', Str algo),
                                       (''cipherText'', cipherText),
                                       (''cipherParams'', Obj [(''iv'', iv58)]),
                                       (''mac'', mac),
                                       (''kdf'', Str ''scrypt''),
                                       (''kdfSalt'', kdfSalt)])]"
    unfolding marshal_def bindE_eq_Inr by blast
  from Base58_encode_val_Inr [OF b1] Base58_encode_val_Inr [OF b2] Base58_encode_val_Inr [OF b3]
    Base58_encode_val_Inr [OF b4] Base58_encode_val_Inr [OF b5] e g r
  show ?thesis
    by blast
qed

lemma exportToFile_writes:
  assumes "getKeyStorage this = Inr keyStore" and "pk this = Str s"
  shows "exportToFile env this keyPath w =
     (let outpath = path_join env
            (case keyPath of None \<Rightarrow> ''keyfiles''
             | Some kp \<Rightarrow> if kp = [] then ''keyfiles'' else kp)
            (map (\<lambda>x. if x = CHR '':'' then CHR ''-'' else x)
               (toISOString env w @ ''-'' @ s @ ''.json''))
      in case writeFileSync env w outpath (JSON_stringify env keyStore) of
           Inl e \<Rightarrow> (Inl e, this, w)
         | Inr w1 \<Rightarrow> (Inr outpath, this, w1))"
  using assms
  by (simp add: exportToFile_def generateKeystoreFilename_Str Let_def split: option.splits)

lemma construct_generate_storage:
  assumes "construct env consts None passwd w = (Inr km, w')"
  shows "dump env (Str passwd) (fst (create env consts w)) consts = Inr (p_keyStorage km)"
  using assms
  by (auto simp: construct_generate Let_def bindE_eq_Inr dest: initKeyStorage_Inr(3))

subsection \<open>Import from a key file\<close>

text \<open>
  With a key path the constructor either throws the error of the import,
  wrapped, or returns an unlocked instance around the parsed object; the
  private key is recovered, and so the MAC checked, only when the object has a
  truthy \<^verbatim>\<open>publicKeyId\<close>.
\<close>

lemma construct_import:
  assumes "kp \<noteq> []"
  shows "construct env opts (Some kp) passwd w =
     (case importFromFile env
             \<lparr>pk = Str [], constants = opts, p_sk = Undefined, p_isLocked = False,
               p_password = [],
               p_keyStorage = Obj [(''publicKeyId'', Str []), (''crypto'', Obj [])]\<rparr>
             kp passwd w of
        Inl err \<Rightarrow> (Inl (ErrorImportingKeyfile err), w)
      | Inr km \<Rightarrow> (Inr km, w))"
  using assms
  by (simp add: construct_def initKeyStorage_def [of env _ "Obj _"] Let_def)

lemma import_failure:
  assumes "construct env opts (Some kp) passwd w = (Inl e, w')" and "kp \<noteq> []"
  shows "\<exists>err. e = ErrorImportingKeyfile err"
  using assms by (auto simp: construct_import split: sum.splits)

lemma import_success:
  assumes "construct env opts (Some kp) passwd w = (Inr km, w')" and "kp \<noteq> []"
  shows "\<not> p_isLocked km"
    and "\<exists>text. readFileSync env w kp = Inr text \<and> JSON_parse env text = Inr (p_keyStorage km)"
    and "if truthy (pk km)
         then recover env (Str passwd) (p_keyStorage km) (scrypt opts) = Inr (p_sk km)
         else p_sk km = Undefined"
proof -
  let ?this1 = "\<lparr>pk = Str [], constants = opts, p_sk = Undefined, p_isLocked = False,
                 p_password = [],
                 p_keyStorage = Obj [(''publicKeyId'', Str []), (''crypto'', Obj [])]\<rparr>"
  from assms obtain content keyStore where
    r: "readFileSync env w kp = Inr content" and j: "JSON_parse env content = Inr keyStore"
    and i: "initKeyStorage env ?this1 keyStore passwd = Inr km"
    by (auto simp: construct_import importFromFile_def bindE_eq_Inr split: sum.splits)
  from initKeyStorage_Inr [OF i] initKeyStorage_sk [OF i] r j
  show "\<not> p_isLocked km"
    and "\<exists>text. readFileSync env w kp = Inr text \<and> JSON_parse env text = Inr (p_keyStorage km)"
    and "if truthy (pk km)
         then recover env (Str passwd) (p_keyStorage km) (scrypt opts) = Inr (p_sk km)
         else p_sk km = Undefined"
    by (simp_all split: if_splits)
qed

subsection \<open>Facts of the test environment\<close>

lemma test_env_simps [simp]:
  "getCiphers test_env = [''aes-256-ctr'']"
  "createCipheriv test_env = test_cipher"
  "createDecipheriv test_env = test_decipher"
  "keccak256 test_env = test_digest 7"
  "scryptSync test_env = test_scrypt"
  "Base58_encode test_env = b58_encode"
  "Base58_decode test_env = b58_decode"
  "blake2b test_env = test_digest 11"
  "curve25519_sign test_env = test_sign"
  "JSON_stringify test_env = json_text"
  "toISOString test_env = clock"
  by (simp_all add: test_env_def)


declare b58_digits.simps [simp del] be_bytes.simps [simp del]

lemmas test_eval = b58_encode_def b58_decode_def b58_alphabet_def b58_digits.simps be_bytes.simps
  test_cipher_def test_decipher_def test_digest_def test_scrypt_def test_sign_def ramp_def
  kdf0_def dk0_def str2buf_def isCipherAvailable_def utf8_def

lemma test_deriveKey: "deriveKey test_env (Str ''pw'') (Buf [9, 8]) kdf0 = Inr (Buf dk0)"
  by (simp add: deriveKey_def test_eval)

lemma test_encrypt:
  "encrypt test_env (Buf [5, 6]) (Buf dk0) (Buf [4]) (Str ''aes-256-ctr'') = Inr (Buf [228, 229])"
  by (simp add: encrypt_def test_eval)

lemma test_decrypt:
  "decrypt test_env (Buf [228, 229]) (Buf dk0) (Buf [4]) (Str ''aes-256-ctr'') = Inr (Buf [5, 6])"
  by (simp add: decrypt_def test_eval)

lemma test_mac: "keccak256 test_env (take 16 (drop 16 dk0) @ [228, 229]) = [187, 46]"
  by (simp add: test_eval)

lemma test_env_more [simp]:
  "generateKeyPair test_env = (\<lambda>seed. (map (\<lambda>x. 2 * x + 1) seed, seed))"
  "randomBytes test_env = (\<lambda>n w. (map (\<lambda>x. x + of_nat (counter w)) (take n (ramp @ ramp @ ramp)),
                             w\<lparr>counter := counter w + n\<rparr>))"
  "readFileSync test_env = (\<lambda>w path. case map_of (files w) path of
                                 None \<Rightarrow> Inl (HostError ''ENOENT: no such file or directory'')
                               | Some text \<Rightarrow> Inr text)"
  "writeFileSync test_env = (\<lambda>w path text. Inr (w\<lparr>files := (path, text) # files w\<rparr>))"
  "JSON_parse test_env = (\<lambda>text. if text = ''{}'' then Inr (Obj [])
                            else Inl (HostError ''SyntaxError: Unexpected token''))"
  "path_join test_env = (\<lambda>dir file. dir @ ''/'' @ file)"
  by (simp_all add: test_env_def)

lemma test_create:
  "create test_env defaultOptions test_world = (test_keyObject, test_world\<lparr>counter := 209\<rparr>)"
  by (simp add: create_def defaultOptions_def test_world_def test_keyObject_def test_eval)

lemma test_dump: "dump test_env (Str ''pw'') test_keyObject defaultOptions = Inr test_keyStorage"
  by (simp add: dump_def marshal_def encrypt_def deriveKey_def defaultOptions_def
        test_keyObject_def test_keyStorage_def test_eval)

lemma test_recover: "recover test_env (Str ''pw'') test_keyStorage (scrypt defaultOptions) = Inr (Buf [223, 84])"
  by (simp add: recover_def verifyAndDecrypt_def decrypt_def deriveKey_def defaultOptions_def
        test_keyStorage_def test_eval)

lemma test_dump_empty: "dump test_env (Str []) test_keyObject defaultOptions = Inr test_keyStorage_empty"
  by (simp add: dump_def marshal_def encrypt_def deriveKey_def defaultOptions_def
        test_keyObject_def test_keyStorage_empty_def test_eval)

lemma test_recover_empty: "recover test_env (Str []) test_keyStorage_empty (scrypt defaultOptions) = Inr (Buf [223, 84])"
  by (simp add: recover_def verifyAndDecrypt_def decrypt_def deriveKey_def defaultOptions_def
        test_keyStorage_empty_def test_eval)

lemma test_publicKeyId: "get_prop test_keyStorage ''publicKeyId'' = Inr (Str ''Fax'')"
  by (simp add: test_keyStorage_def)

lemma test_new_KeyManager:
  "new_KeyManager test_env (ParamString ''pw'') test_world = (Inr test_km, test_world\<lparr>counter := 209\<rparr>)"
  by (simp add: new_KeyManager_def construct_generate test_create test_dump initKeyStorage_def
        test_publicKeyId test_recover test_km_def)

lemma test_inputs_wrong:
  "recover_inputs test_env (Str ''pwd'') test_keyStorage (scrypt defaultOptions) =
     Inr (Buf dk_pwd, Buf [223, 164], Buf [221, 82], Buf [241, 203], Str ''aes-256-ctr'')"
  by (simp add: recover_inputs_def deriveKey_def defaultOptions_def test_keyStorage_def
        dk_pwd_def test_eval)

lemma test_mac_wrong: "getMAC test_env (Buf dk_pwd) (Buf [221, 82]) = Inr (Buf [49, 47])"
  by (simp add: dk_pwd_def test_eval)

lemma test_publicKeyId_empty: "get_prop test_keyStorage_empty ''publicKeyId'' = Inr (Str ''Fax'')"
  by (simp add: test_keyStorage_empty_def)

lemma bare_string_as_password:
  assumes "s \<noteq> []"
  shows "new_KeyManager env (ParamString s) w = new_KeyManager env (ParamObject (Some s) None None) w"
  using assms by (simp add: new_KeyManager_def)

lemma test_marshal:
  "marshal test_env (Buf dk0)
     \<lparr>publicKey = Buf [9], privateKey = Buf [5, 6], iv = Undefined, salt = Undefined\<rparr>
     (Buf [9, 8]) (Buf [4]) ''aes-256-ctr'' = Inr test_record"
  by (simp add: marshal_Buf [OF test_encrypt] test_mac test_record_def)
     (simp add: test_eval)

lemma test_clock: "clock test_world = ''2020-04-03T10:00:00.000Z''"
  by (simp add: test_world_def)

lemma mask32: "(4891 :: byte) = 27"
  by simp

lemma test_scrypt32:
  "scryptSync test_env (utf8 ''pw'') salt32 (dkLen kdf0) (kdf_n kdf0) (kdf_r kdf0) (kdf_p kdf0)
     (2 * 128 * kdf_n kdf0 * kdf_r kdf0) = Inr dk32"
  by (simp add: salt32_def dk32_def test_eval)

lemma test_cipher32:
  "createCipheriv test_env ''aes-256-ctr'' dk32 (Some iv16) =
     Inr (\<lambda>data. Inr (map (\<lambda>x. x + 27) data))"
  by (simp add: dk32_def iv16_def test_eval mask32)

lemma test_decipher32:
  "createDecipheriv test_env ''aes-256-ctr'' dk32 (Some iv16) =
     Inr (\<lambda>data. Inr (map (\<lambda>x. x - 27) data))"
  by (simp add: dk32_def iv16_def test_eval mask32)

lemma test_ct32: "map (\<lambda>x. x + 27) priv32 = ct32" "map (\<lambda>x. x - 27) ct32 = priv32"
  by (simp_all add: priv32_def ct32_def)

lemma test_mac32: "keccak256 test_env (take 16 (drop 16 dk32) @ ct32) = [137, 187]"
  by (simp add: dk32_def ct32_def test_eval)

lemma test_base58_iv16:
  "Base58_decode test_env (Base58_encode test_env iv16) = Inr iv16"
  "Base58_encode test_env iv16 \<noteq> []"
  by (simp_all add: iv16_def test_eval)

lemma test_base58_salt32:
  "Base58_decode test_env (Base58_encode test_env salt32) = Inr salt32"
  "Base58_encode test_env salt32 \<noteq> []"
  by (simp_all add: salt32_def test_eval)

lemma test_base58_ct32:
  "Base58_decode test_env (Base58_encode test_env ct32) = Inr ct32"
  "Base58_encode test_env ct32 \<noteq> []"
  by (simp_all add: ct32_def test_eval)

lemma test_base58_mac32:
  "Base58_decode test_env (Base58_encode test_env [137, 187]) = Inr [137, 187]"
  "Base58_encode test_env [137, 187] \<noteq> []"
  by (simp_all add: test_eval)

subsection \<open>The claims\<close>

lemma slice_eq_map_nth:
  assumes "i + n \<le> length xs"
  shows "take n (drop i xs) = map (\<lambda>k. xs ! k) [i..<i + n]"
proof (rule nth_equalityI)
  show "length (take n (drop i xs)) = length (map (\<lambda>k. xs ! k) [i..<i + n])"
    using assms by simp
next
  fix k assume "k < length (take n (drop i xs))"
  then have "k < n" by simp
  then show "take n (drop i xs) ! k = map (\<lambda>k. xs ! k) [i..<i + n] ! k"
    using assms by simp
qed

text \<open>
  C6.  For a derived key of at least 32 bytes and any ciphertext, both given as
  buffers, \<open>getMAC\<close> returns the Keccak-256 hash of the bytes at positions 16 to 31
  of the derived key followed by the bytes of the ciphertext.
\<close>

theorem getMAC_keccak_of_second_half:
  assumes "32 \<le> length dk"
  shows "getMAC env (Buf dk) (Buf ct) = Inr (Buf (keccak256 env (map (\<lambda>i. dk ! i) [16..<32] @ ct)))"
proof -
  have "take 16 (drop 16 dk) = map (\<lambda>i. dk ! i) [16..<32]"
    using assms slice_eq_map_nth [of 16 16 dk] by simp
  then show ?thesis
    by (simp add: getMAC_def js_slice_def)
qed

theorem getMAC_keccak_of_second_half_witness:
  "32 \<le> length dk0 \<and> getMAC test_env (Buf dk0) (Buf [228, 229]) = Inr (Buf [187, 46])"
proof -
  have len: "32 \<le> length dk0"
    by (simp add: dk0_def)
  have "map (\<lambda>i. dk0 ! i) [16..<32] =
        [28, 29, 34, 30, 32, 28, 32, 30, 29, 29, 34, 29, 28, 33, 35, 31]"
    by (simp add: dk0_def)
  with getMAC_keccak_of_second_half [OF len, of test_env "[228, 229]"]
  have "getMAC test_env (Buf dk0) (Buf [228, 229]) =
        Inr (Buf (test_digest 7
          ([28, 29, 34, 30, 32, 28, 32, 30, 29, 29, 34, 29, 28, 33, 35, 31] @ [228, 229])))"
    by (simp del: getMAC_Buf)
  then show ?thesis
    using len by (simp add: test_digest_def del: getMAC_Buf)
qed

text \<open>
  C1.  Round trip.  Let the password be a string or a buffer and the cipher name
  one the provider lists.  Let scrypt return a key for password and salt, let
  the provider's cipher for that key and iv turn the private key into a
  ciphertext, and let the provider's decipher for the same key and iv turn that
  ciphertext back into the private key.  Let Base58 decoding invert Base58
  encoding on iv, salt, ciphertext and MAC, the encoding of non-empty bytes
  being a non-empty text, and let salt, ciphertext and MAC be non-empty (as a
  32-byte salt, the ciphertext of a 32-byte key and a Keccak digest are).  Then
  \<open>recover\<close>, given the same password and the record that \<open>marshal\<close> makes of the
  key \<open>deriveKey\<close> returns, returns exactly the private key.
\<close>

theorem recover_marshal_roundtrip:
  assumes pw: "p = Str pw \<and> pwb = utf8 pw \<or> p = Buf pwb"
      and kdf: "scryptSync env pwb saltb (dkLen kdfPs) (kdf_n kdfPs) (kdf_r kdfPs) (kdf_p kdfPs)
                  (2 * 128 * kdf_n kdfPs * kdf_r kdfPs) = Inr dk"
      and av: "algo \<in> set (getCiphers env)"
      and enc: "createCipheriv env algo dk (Some ivb) = Inr c" "c priv = Inr ct"
      and dec: "createDecipheriv env algo dk (Some ivb) = Inr d" "d ct = Inr priv"
      and mac: "mac = keccak256 env (take 16 (drop 16 dk) @ ct)"
      and b58: "\<forall>b \<in> set [ivb, saltb, ct, mac].
                  Base58_decode env (Base58_encode env b) = Inr b \<and>
                  (Base58_encode env b = [] \<longrightarrow> b = [])"
      and ne: "saltb \<noteq> []" "ct \<noteq> []" "mac \<noteq> []"
  shows "bindE (deriveKey env p (Buf saltb) kdfPs) (\<lambda>derivedKey.
         bindE (marshal env derivedKey
                  \<lparr>publicKey = Buf pub, privateKey = Buf priv, iv = Undefined, salt = Undefined\<rparr>
                  (Buf saltb) (Buf ivb) algo) (\<lambda>keyStore.
         recover env p keyStore kdfPs)) = Inr (Buf priv)"
proof -
  have dk: "deriveKey env p (Buf saltb) kdfPs = Inr (Buf dk)"
    using kdf by (simp add: deriveKey_bytes [OF pw])
  have e: "encrypt env (Buf priv) (Buf dk) (Buf ivb) (Str algo) = Inr (Buf ct)"
    by (simp add: encrypt_Buf [OF av] enc)
  have d: "decrypt env (Buf ct) (Buf dk) (Buf ivb) (Str algo) = Inr (Buf priv)"
    by (simp add: decrypt_Buf [OF av] dec)
  have i: "\<exists>v. str2buf env (Str (Base58_encode env ivb)) None = Inr v \<and> to_iv v = Inr (Some ivb)"
    using b58 by (intro stored_iv) simp_all
  have s: "str2buf env (Str (Base58_encode env saltb)) None = Inr (Buf saltb)"
    using b58 ne(1) by (intro stored_text) auto
  have c: "str2buf env (Str (Base58_encode env ct)) None = Inr (Buf ct)"
    using b58 ne(2) by (intro stored_text) auto
  have m: "str2buf env (Str (Base58_encode env mac)) None = Inr (Buf mac)"
    using b58 ne(3) by (intro stored_text) auto
  show ?thesis
    by (simp add: dk marshal_Buf [OF e] mac [symmetric] recover_record [OF i s c m dk] d)
qed

theorem recover_marshal_roundtrip_witness:
  "bindE (deriveKey test_env (Str ''pw'') (Buf salt32) kdf0) (\<lambda>derivedKey.
   bindE (marshal test_env derivedKey
            \<lparr>publicKey = Buf pub32, privateKey = Buf priv32, iv = Undefined, salt = Undefined\<rparr>
            (Buf salt32) (Buf iv16) ''aes-256-ctr'') (\<lambda>keyStore.
   recover test_env (Str ''pw'') keyStore kdf0)) = Inr (Buf priv32)"
proof (rule recover_marshal_roundtrip
         [where pw = "''pw''" and pwb = "utf8 ''pw''" and dk = dk32 and ct = ct32
            and mac = "[137, 187]"
            and c = "\<lambda>data. Inr (map (\<lambda>x. x + 27) data)"
            and d = "\<lambda>data. Inr (map (\<lambda>x. x - 27) data)"])
  show "Str ''pw'' = Str ''pw'' \<and> utf8 ''pw'' = utf8 ''pw'' \<or> Str ''pw'' = Buf (utf8 ''pw'')"
    by simp
  show "scryptSync test_env (utf8 ''pw'') salt32 (dkLen kdf0) (kdf_n kdf0) (kdf_r kdf0) (kdf_p kdf0)
     (2 * 128 * kdf_n kdf0 * kdf_r kdf0) = Inr dk32"
    by (rule test_scrypt32)
  show "''aes-256-ctr'' \<in> set (getCiphers test_env)"
    by simp
  show "createCipheriv test_env ''aes-256-ctr'' dk32 (Some iv16) =
     Inr (\<lambda>data. Inr (map (\<lambda>x. x + 27) data))"
    by (rule test_cipher32)
  show "Inr (map (\<lambda>x. x + 27) priv32) = Inr ct32"
    by (simp only: test_ct32)
  show "createDecipheriv test_env ''aes-256-ctr'' dk32 (Some iv16) =
     Inr (\<lambda>data. Inr (map (\<lambda>x. x - 27) data))"
    by (rule test_decipher32)
  show "Inr (map (\<lambda>x. x - 27) ct32) = Inr priv32"
    by (simp only: test_ct32)
  show "[137, 187] = keccak256 test_env (take 16 (drop 16 dk32) @ ct32)"
    by (simp only: test_mac32)
  show "\<forall>b \<in> set [iv16, salt32, ct32, [137, 187]].
          Base58_decode test_env (Base58_encode test_env b) = Inr b \<and>
          (Base58_encode test_env b = [] \<longrightarrow> b = [])"
    using test_base58_iv16 test_base58_salt32 test_base58_ct32 test_base58_mac32
    by (simp del: test_env_simps)
  show "salt32 \<noteq> []" "ct32 \<noteq> []" "[137, 187] \<noteq> ([] :: bytes)"
    by (simp_all add: salt32_def ct32_def)
qed

text \<open>
  C9.  \<open>lockKey\<close> is a total function on instances: whatever the state, the
  instance it leaves is locked and every other field (public key, private key,
  password, key storage, constants) is as before.
\<close>

theorem lockKey_frame:
  "p_isLocked (lockKey this) \<and> pk (lockKey this) = pk this \<and> p_sk (lockKey this) = p_sk this \<and>
   p_password (lockKey this) = p_password this \<and> p_keyStorage (lockKey this) = p_keyStorage this \<and>
   constants (lockKey this) = constants this \<and> lockKey this = this\<lparr>p_isLocked := True\<rparr>"
  by (simp add: lockKey_def)

text \<open>
  C4.  On a locked instance \<open>unlockKey\<close> unlocks exactly when its argument is the
  stored password, and otherwise throws \<^verbatim>\<open>Invalid password\<close> and leaves the
  instance as it was, locked; on an unlocked instance it throws
  \<^verbatim>\<open>The key is already unlocked\<close> whatever the argument.  The stored password is
  the one given to the constructor.
\<close>

theorem unlockKey_semantics:
  "(p_isLocked this \<longrightarrow>
      unlockKey this passwd =
        (if passwd = p_password this then (Inr (), this\<lparr>p_isLocked := False\<rparr>)
         else (Inl (Error ''Invalid password''), this))) \<and>
   (\<not> p_isLocked this \<longrightarrow> unlockKey this passwd = (Inl (Error ''The key is already unlocked''), this)) \<and>
   (new_KeyManager env ps w = (Inr this, w') \<longrightarrow> p_password this = given_password ps)"
  by (auto simp: unlockKey_def dest: new_KeyManager_Inr)

theorem unlockKey_semantics_witness:
  "unlockKey (lockKey test_km) ''pw'' = (Inr (), test_km) \<and>
   unlockKey (lockKey test_km) ''pwd'' = (Inl (Error ''Invalid password''), lockKey test_km) \<and>
   unlockKey test_km ''pw'' = (Inl (Error ''The key is already unlocked''), test_km) \<and>
   p_password test_km = given_password (ParamString ''pw'')"
  using unlockKey_semantics [of "lockKey test_km" "''pw''" test_env "ParamString ''pw''" test_world test_world]
    unlockKey_semantics [of "lockKey test_km" "''pwd''" test_env "ParamString ''pw''" test_world test_world]
    unlockKey_semantics [of test_km "''pw''" test_env "ParamString ''pw''" test_world "test_world\<lparr>counter := 209\<rparr>"]
    test_new_KeyManager
  by (simp add: lockKey_def test_km_def)

text \<open>
  C5.  An instance the constructor returns is unlocked.  Once locked, \<open>sign\<close>
  throws \<^verbatim>\<open>The key is currently locked\<close> for every message.  \<open>unlockKey\<close> with the
  password given at construction restores the instance, and \<open>sign\<close> then returns
  the signature that \<^verbatim>\<open>curve25519.sign\<close> computes from the private key, the message
  and 64 fresh random bytes.
\<close>

theorem lock_discipline:
  assumes "new_KeyManager env ps w = (Inr km, w')"
  shows "\<not> p_isLocked km \<and>
         p_isLocked (lockKey km) \<and>
         (\<forall>message w1. sign env (lockKey km) message w1 =
            (Inl (Error ''The key is currently locked. Please unlock and try again.''),
             lockKey km, w1)) \<and>
         unlockKey (lockKey km) (given_password ps) = (Inr (), km) \<and>
         (\<forall>message w1 sk msg sig.
            str2buf env (p_sk km) None = Inr sk \<longrightarrow>
            str2buf env message (Some Utf8) = Inr msg \<longrightarrow>
            curve25519_sign env sk msg (fst (randomBytes env 64 w1)) = Inr sig \<longrightarrow>
            sign env (snd (unlockKey (lockKey km) (given_password ps))) message w1 =
              (Inr sig, km, snd (randomBytes env 64 w1)))"
proof -
  note k = new_KeyManager_Inr [OF assms]
  have u: "unlockKey (lockKey km) (given_password ps) = (Inr (), km)"
    using relock_unlock [OF k(1)] by (simp add: k(2))
  have l: "p_isLocked (lockKey km)"
    by (simp add: lockKey_def)
  show ?thesis
    unfolding u using k(1) l by (auto simp: sign_def split: prod.splits)
qed

theorem lock_discipline_witness:
  "\<not> p_isLocked test_km \<and>
   sign test_env (lockKey test_km) (Str ''hi'') (test_world\<lparr>counter := 209\<rparr>) =
     (Inl (Error ''The key is currently locked. Please unlock and try again.''),
      lockKey test_km, test_world\<lparr>counter := 209\<rparr>) \<and>
   unlockKey (lockKey test_km) ''pw'' = (Inr (), test_km) \<and>
   sign test_env (snd (unlockKey (lockKey test_km) ''pw'')) (Str ''hi'')
       (test_world\<lparr>counter := 209\<rparr>) =
     (Inr [223, 84, 104, 105, 212], test_km, test_world\<lparr>counter := 273\<rparr>)"
proof -
  have sk: "str2buf test_env (p_sk test_km) None = Inr (Buf [223, 84])"
    by (simp add: test_km_def)
  have msg: "str2buf test_env (Str ''hi'') (Some Utf8) = Inr (Buf [104, 105])"
    by (simp add: str2buf_def utf8_def)
  have rnd: "randomBytes test_env 64 (test_world\<lparr>counter := 209\<rparr>) =
             (map (\<lambda>x. x + 209) (take 64 (ramp @ ramp @ ramp)), test_world\<lparr>counter := 273\<rparr>)"
    by (simp add: test_world_def)
  have sig: "curve25519_sign test_env (Buf [223, 84]) (Buf [104, 105])
               (fst (randomBytes test_env 64 (test_world\<lparr>counter := 209\<rparr>))) =
             Inr [223, 84, 104, 105, 212]"
    unfolding rnd by (simp add: test_sign_def ramp_def)
  have gp: "given_password (ParamString ''pw'') = ''pw''"
    by (simp add: given_password_def)
  from lock_discipline [OF test_new_KeyManager]
  have a: "\<not> p_isLocked test_km"
    and b: "\<And>message w1. sign test_env (lockKey test_km) message w1 =
            (Inl (Error ''The key is currently locked. Please unlock and try again.''),
             lockKey test_km, w1)"
    and c: "unlockKey (lockKey test_km) (given_password (ParamString ''pw'')) = (Inr (), test_km)"
    and d: "\<And>message w1 sk msg sig.
            str2buf test_env (p_sk test_km) None = Inr sk \<Longrightarrow>
            str2buf test_env message (Some Utf8) = Inr msg \<Longrightarrow>
            curve25519_sign test_env sk msg (fst (randomBytes test_env 64 w1)) = Inr sig \<Longrightarrow>
            sign test_env (snd (unlockKey (lockKey test_km) (given_password (ParamString ''pw''))))
              message w1 = (Inr sig, test_km, snd (randomBytes test_env 64 w1))"
    by blast+
  show ?thesis
    using a b c d [OF sk msg sig] unfolding gp rnd by simp
qed

text \<open>
  The check on records whose fields decode to buffers.  Let the fields of a
  record decode, the stored MAC to a buffer, and the key derivation succeed.  If
  the MAC recomputed from the derived key and the record's ciphertext differs
  from the stored one, \<open>recover\<close> throws
  \<^verbatim>\<open>message authentication code mismatch\<close>, whatever the provider's decipher is:
  the result does not depend on it.  And a plaintext that \<open>recover\<close> returns is
  the decryption of a ciphertext whose recomputed MAC equals the stored one.
\<close>

theorem mac_checked_before_decrypt:
  "(recover_inputs env passwd keyStore kdfPs = Inr (derivedKey, ivv, ciphertext, Buf mac, algo) \<and>
    getMAC env derivedKey ciphertext = Inr (Buf m) \<and> m \<noteq> mac \<longrightarrow>
      (\<forall>d. recover (env\<lparr>createDecipheriv := d\<rparr>) passwd keyStore kdfPs =
             Inl (Error ''message authentication code mismatch''))) \<and>
   (recover env passwd keyStore kdfPs = Inr plaintext \<longrightarrow>
      (\<exists>dk i ct mc a.
         recover_inputs env passwd keyStore kdfPs = Inr (dk, i, ct, Buf mc, a) \<and>
         getMAC env dk ct = Inr (Buf mc) \<and>
         decrypt env ct dk i a = Inr plaintext))"
proof (intro conjI impI allI)
  fix d
  assume a: "recover_inputs env passwd keyStore kdfPs = Inr (derivedKey, ivv, ciphertext, Buf mac, algo) \<and>
    getMAC env derivedKey ciphertext = Inr (Buf m) \<and> m \<noteq> mac"
  then have "getMAC (env\<lparr>createDecipheriv := d\<rparr>) derivedKey ciphertext = Inr (Buf m)"
    by simp
  from verifyAndDecrypt_mismatch [OF this] a
  show "recover (env\<lparr>createDecipheriv := d\<rparr>) passwd keyStore kdfPs =
        Inl (Error ''message authentication code mismatch'')"
    by (simp add: recover_via_inputs)
next
  assume r: "recover env passwd keyStore kdfPs = Inr plaintext"
  then obtain dk i ct mc a where
    inp: "recover_inputs env passwd keyStore kdfPs = Inr (dk, i, ct, mc, a)"
    and v: "verifyAndDecrypt env dk i ct mc a = Inr plaintext"
    by (auto simp: recover_via_inputs bindE_def split: sum.splits)
  from verifyAndDecrypt_Inr [OF v] inp
  show "\<exists>dk i ct mc a.
         recover_inputs env passwd keyStore kdfPs = Inr (dk, i, ct, Buf mc, a) \<and>
         getMAC env dk ct = Inr (Buf mc) \<and>
         decrypt env ct dk i a = Inr plaintext"
    by blast
qed

theorem mac_checked_before_decrypt_witness:
  "(\<forall>d. recover (test_env\<lparr>createDecipheriv := d\<rparr>) (Str ''pwd'') test_keyStorage
           (scrypt defaultOptions) =
         Inl (Error ''message authentication code mismatch'')) \<and>
   (\<exists>dk i ct mc a.
      recover_inputs test_env (Str ''pw'') test_keyStorage (scrypt defaultOptions) =
        Inr (dk, i, ct, Buf mc, a) \<and>
      getMAC test_env dk ct = Inr (Buf mc) \<and>
      decrypt test_env ct dk i a = Inr (Buf [223, 84]))"
proof -
  have ne: "[49, 47] \<noteq> [241, 203 :: byte]"
    by simp
  note t1 = mac_checked_before_decrypt
    [of test_env "Str ''pwd''" test_keyStorage "scrypt defaultOptions" "Buf dk_pwd"
        "Buf [223, 164]" "Buf [221, 82]" "[241, 203]" "Str ''aes-256-ctr''" "[49, 47]"]
  from t1 test_inputs_wrong test_mac_wrong ne
  have a: "\<forall>d. recover (test_env\<lparr>createDecipheriv := d\<rparr>) (Str ''pwd'') test_keyStorage
           (scrypt defaultOptions) = Inl (Error ''message authentication code mismatch'')"
    by blast
  note t2 = mac_checked_before_decrypt
    [of test_env "Str ''pw''" test_keyStorage "scrypt defaultOptions" _ _ _ _ _ _ "Buf [223, 84]"]
  from t2 test_recover
  have b: "\<exists>dk i ct mc a.
      recover_inputs test_env (Str ''pw'') test_keyStorage (scrypt defaultOptions) =
        Inr (dk, i, ct, Buf mc, a) \<and>
      getMAC test_env dk ct = Inr (Buf mc) \<and>
      decrypt test_env ct dk i a = Inr (Buf [223, 84])"
    by blast
  from a b show ?thesis ..
qed

text \<open>
  C2.  The check does not answer with the mismatch error for every record.  Take
  a record whose \<^verbatim>\<open>mac\<close> is the empty string, \<^verbatim>\<open>null\<close> or absent, as a key file
  read by \<open>importFromFile\<close> may be, while salt and ciphertext decode and the key
  derivation succeeds.  \<open>str2buf\<close> returns such a \<^verbatim>\<open>mac\<close> unchanged, the MAC
  recomputed from the derived key and the ciphertext is a buffer and so differs
  from it, and \<open>recover\<close> throws the \<^verbatim>\<open>TypeError\<close> of \<^verbatim>\<open>Buffer.equals\<close>, not
  \<^verbatim>\<open>message authentication code mismatch\<close>.  Nothing is decrypted.
\<close>

theorem recover_malformed_mac:
  assumes pw: "p = Str pw \<and> pwb = utf8 pw \<or> p = Buf pwb"
      and sl: "s58 \<noteq> [] \<and> Base58_decode env s58 = Inr saltb"
      and ct: "c58 \<noteq> [] \<and> Base58_decode env c58 = Inr ct"
      and iv: "i58 = [] \<or> Base58_decode env i58 = Inr ivb"
      and kdf: "scryptSync env pwb saltb (dkLen kdfPs) (kdf_n kdfPs) (kdf_r kdfPs) (kdf_p kdfPs)
                  (2 * 128 * kdf_n kdfPs * kdf_r kdfPs) = Inr dk"
      and mac: "macfield = [(''mac'', Str [])] \<or> macfield = [(''mac'', Null)] \<or> macfield = []"
  shows "\<forall>d. recover (env\<lparr>createDecipheriv := d\<rparr>) p
           (Obj [(''publicKeyId'', pkid),
                 (''crypto'', Obj ([(''cipher'', algo),
                                    (''cipherText'', Str c58),
                                    (''cipherParams'', Obj [(''iv'', Str i58)])] @ macfield @
                                   [(''kdf'', k), (''kdfSalt'', Str s58)]))]) kdfPs =
         Inl (TypeError ''otherBuffer must be a Buffer'')"
proof
  fix d
  let ?env = "env\<lparr>createDecipheriv := d\<rparr>"
  have dk: "deriveKey env p (Buf saltb) kdfPs = Inr (Buf dk)"
    using kdf by (simp add: deriveKey_bytes [OF pw])
  have "\<exists>v. str2buf env (Str i58) None = Inr v"
    using iv by (auto simp: str2buf_def truthy_def)
  then obtain ivv where ivv: "str2buf env (Str i58) None = Inr ivv" ..
  have s: "str2buf env (Str s58) None = Inr (Buf saltb)"
    using sl by (simp add: str2buf_def truthy_def)
  have c: "str2buf env (Str c58) None = Inr (Buf ct)"
    using ct by (simp add: str2buf_def truthy_def)
  have e: "str2buf env (Str []) None = Inr (Str [])" "str2buf env Null None = Inr Null"
    "str2buf env Undefined None = Inr Undefined"
    by (simp_all add: str2buf_def truthy_def)
  from mac show "recover ?env p
           (Obj [(''publicKeyId'', pkid),
                 (''crypto'', Obj ([(''cipher'', algo),
                                    (''cipherText'', Str c58),
                                    (''cipherParams'', Obj [(''iv'', Str i58)])] @ macfield @
                                   [(''kdf'', k), (''kdfSalt'', Str s58)]))]) kdfPs =
         Inl (TypeError ''otherBuffer must be a Buffer'')"
    by (elim disjE)
       (simp_all add: recover_def verifyAndDecrypt_def get_prop_def ivv s c e dk
                      Buffer_equals_def)
qed

theorem recover_malformed_mac_witness:
  "\<forall>d. recover (test_env\<lparr>createDecipheriv := d\<rparr>) (Str ''pw'') test_record_nomac kdf0 =
     Inl (TypeError ''otherBuffer must be a Buffer'')"
proof -
  have "\<forall>d. recover (test_env\<lparr>createDecipheriv := d\<rparr>) (Str ''pw'')
           (Obj [(''publicKeyId'', Str ''A''),
                 (''crypto'', Obj ([(''cipher'', Str ''aes-256-ctr''),
                                    (''cipherText'', Str ''JRJ''),
                                    (''cipherParams'', Obj [(''iv'', Str ''5'')])] @
                                   [(''mac'', Str [])] @
                                   [(''kdf'', Str ''scrypt''), (''kdfSalt'', Str ''gs'')]))]) kdf0 =
         Inl (TypeError ''otherBuffer must be a Buffer'')"
  proof (rule recover_malformed_mac
           [where pw = "''pw''" and pwb = "utf8 ''pw''" and saltb = "[9, 8]" and ct = "[228, 229]"
              and ivb = "[4]" and dk = dk0])
    show "Str ''pw'' = Str ''pw'' \<and> utf8 ''pw'' = utf8 ''pw'' \<or> Str ''pw'' = Buf (utf8 ''pw'')"
      by simp
    show "''gs'' \<noteq> [] \<and> Base58_decode test_env ''gs'' = Inr [9, 8]"
      by (simp add: test_eval)
    show "''JRJ'' \<noteq> [] \<and> Base58_decode test_env ''JRJ'' = Inr [228, 229]"
      by (simp add: test_eval)
    show "''5'' = [] \<or> Base58_decode test_env ''5'' = Inr [4]"
      by (simp add: test_eval)
    show "scryptSync test_env (utf8 ''pw'') [9, 8] (dkLen kdf0) (kdf_n kdf0) (kdf_r kdf0)
            (kdf_p kdf0) (2 * 128 * kdf_n kdf0 * kdf_r kdf0) = Inr dk0"
      by (simp add: test_eval)
    show "[(''mac'', Str [])] = [(''mac'', Str [])] \<or> [(''mac'', Str [])] = [(''mac'', Null)] \<or>
          [(''mac'', Str [])] = []"
      by simp
  qed
  then show ?thesis
    by (simp add: test_record_nomac_def)
qed

text \<open>
  C8.  The file name is the ISO timestamp, a hyphen, the public key id and
  \<^verbatim>\<open>.json\<close>, with every colon replaced by a hyphen; for \<^verbatim>\<open>ABC123\<close> at
  \<^verbatim>\<open>2020-04-03T10:00:00.000Z\<close> it is \<^verbatim>\<open>2020-04-03T10-00-00.000Z-ABC123.json\<close>.
  On an unlocked instance with a non-empty public key id \<open>exportToFile\<close> writes
  the serialised key storage to the file of that name in the key directory.
  Whatever happens, the instance, and so its lock state, is unchanged.
\<close>

theorem keystore_filename:
  "generateKeystoreFilename env (Str publicKeyId) w =
     Inr (map (\<lambda>x. if x = CHR '':'' then CHR ''-'' else x)
            (toISOString env w @ ''-'' @ publicKeyId @ ''.json'')) \<and>
   (toISOString env w = ''2020-04-03T10:00:00.000Z'' \<longrightarrow>
      generateKeystoreFilename env (Str ''ABC123'') w =
        Inr ''2020-04-03T10-00-00.000Z-ABC123.json'') \<and>
   (\<not> p_isLocked this \<and> pk this = Str publicKeyId \<and> publicKeyId \<noteq> [] \<longrightarrow>
      exportToFile env this keyPath w =
        (let dir = (case keyPath of None \<Rightarrow> ''keyfiles''
                    | Some kp \<Rightarrow> if kp = [] then ''keyfiles'' else kp);
             outpath = path_join env dir
               (map (\<lambda>x. if x = CHR '':'' then CHR ''-'' else x)
                  (toISOString env w @ ''-'' @ publicKeyId @ ''.json''))
         in case writeFileSync env w outpath (JSON_stringify env (p_keyStorage this)) of
              Inl e \<Rightarrow> (Inl e, this, w)
            | Inr w1 \<Rightarrow> (Inr outpath, this, w1))) \<and>
   fst (snd (exportToFile env this keyPath w)) = this \<and>
   p_isLocked (fst (snd (exportToFile env this keyPath w))) = p_isLocked this"
proof -
  have g: "generateKeystoreFilename env (Str publicKeyId) w =
     Inr (map (\<lambda>x. if x = CHR '':'' then CHR ''-'' else x)
            (toISOString env w @ ''-'' @ publicKeyId @ ''.json''))"
    by (rule generateKeystoreFilename_Str)
  have ex: "toISOString env w = ''2020-04-03T10:00:00.000Z'' \<longrightarrow>
            generateKeystoreFilename env (Str ''ABC123'') w =
              Inr ''2020-04-03T10-00-00.000Z-ABC123.json''"
    by (simp add: generateKeystoreFilename_Str)
  have wr: "\<not> p_isLocked this \<and> pk this = Str publicKeyId \<and> publicKeyId \<noteq> [] \<longrightarrow>
      exportToFile env this keyPath w =
        (let dir = (case keyPath of None \<Rightarrow> ''keyfiles''
                    | Some kp \<Rightarrow> if kp = [] then ''keyfiles'' else kp);
             outpath = path_join env dir
               (map (\<lambda>x. if x = CHR '':'' then CHR ''-'' else x)
                  (toISOString env w @ ''-'' @ publicKeyId @ ''.json''))
         in case writeFileSync env w outpath (JSON_stringify env (p_keyStorage this)) of
              Inl e \<Rightarrow> (Inl e, this, w)
            | Inr w1 \<Rightarrow> (Inr outpath, this, w1))"
    by (simp add: exportToFile_def generateKeystoreFilename_Str getKeyStorage_def Let_def
          split: option.splits)
  have i1: "fst (snd (exportToFile env this keyPath w)) = this"
    by (rule exportToFile_instance)
  have i2: "p_isLocked (fst (snd (exportToFile env this keyPath w))) = p_isLocked this"
    by (simp add: exportToFile_instance)
  from g ex wr i1 i2 show ?thesis
    by (intro conjI)
qed

theorem keystore_filename_witness:
  "generateKeystoreFilename test_env (Str ''ABC123'') test_world =
     Inr ''2020-04-03T10-00-00.000Z-ABC123.json'' \<and>
   exportToFile test_env test_km None test_world =
     (Inr ''keyfiles/2020-04-03T10-00-00.000Z-Fax.json'', test_km,
      test_world\<lparr>files := (''keyfiles/2020-04-03T10-00-00.000Z-Fax.json'', json_text test_keyStorage) #
                 files test_world\<rparr>) \<and>
   p_isLocked (fst (snd (exportToFile test_env test_km None test_world))) = p_isLocked test_km"
proof -
  have c: "toISOString test_env test_world = ''2020-04-03T10:00:00.000Z''"
    by (simp add: test_world_def)
  have c': "clock test_world = ''2020-04-03T10:00:00.000Z''"
    by (simp add: test_world_def)
  have ks: "p_keyStorage test_km = test_keyStorage"
    by (simp add: test_km_def)
  have k: "\<not> p_isLocked test_km \<and> pk test_km = Str ''Fax'' \<and> ''Fax'' \<noteq> []"
    by (simp add: test_km_def)
  note t = keystore_filename [of test_env "''Fax''" test_world test_km None]
  from t c have a: "generateKeystoreFilename test_env (Str ''ABC123'') test_world =
     Inr ''2020-04-03T10-00-00.000Z-ABC123.json''"
    by blast
  from t k have "exportToFile test_env test_km None test_world =
        (let dir = (case None of None \<Rightarrow> ''keyfiles''
                    | Some kp \<Rightarrow> if kp = [] then ''keyfiles'' else kp);
             outpath = path_join test_env dir
               (map (\<lambda>x. if x = CHR '':'' then CHR ''-'' else x)
                  (toISOString test_env test_world @ ''-'' @ ''Fax'' @ ''.json''))
         in case writeFileSync test_env test_world outpath (JSON_stringify test_env (p_keyStorage test_km)) of
              Inl e \<Rightarrow> (Inl e, test_km, test_world)
            | Inr w1 \<Rightarrow> (Inr outpath, test_km, w1))"
    by blast
  then have b: "exportToFile test_env test_km None test_world =
     (Inr ''keyfiles/2020-04-03T10-00-00.000Z-Fax.json'', test_km,
      test_world\<lparr>files := (''keyfiles/2020-04-03T10-00-00.000Z-Fax.json'', json_text test_keyStorage) #
                 files test_world\<rparr>)"
    by (simp add: c' ks Let_def)
  from t have "p_isLocked (fst (snd (exportToFile test_env test_km None test_world))) = p_isLocked test_km"
    by blast
  with a b show ?thesis by blast
qed

text \<open>
  C3 (where the code departs from it).  A key file that holds the empty JSON
  object is imported without any error: the constructor returns an unlocked
  instance with no public key and no private key, on which \<open>getKeyStorage\<close>
  throws.
\<close>

theorem import_of_empty_object:
  "new_KeyManager test_env (ParamObject (Some ''pw'') (Some ''empty.json'') None) test_world =
     (Inr \<lparr>pk = Undefined, constants = defaultOptions, p_sk = Undefined, p_isLocked = False,
           p_password = ''pw'', p_keyStorage = Obj []\<rparr>, test_world)"
  by (simp add: new_KeyManager_def construct_def initKeyStorage_def importFromFile_def
        get_prop_def test_world_def)

theorem import_of_empty_object_witness:
  "(\<exists>km. fst (new_KeyManager test_env (ParamObject (Some ''pw'') (Some ''empty.json'') None)
               test_world) = Inr km \<and>
         \<not> p_isLocked km \<and> p_sk km = Undefined \<and>
         getKeyStorage km =
           Inl (Error ''A key must be initialized before using this key manager''))"
  using import_of_empty_object by (simp add: getKeyStorage_def)

text \<open>
  C10 (where the code departs from it).  The empty string alone is accepted as
  the password and a key is generated, while the object with the empty string
  as password is rejected.
\<close>

theorem bare_empty_string:
  "new_KeyManager test_env (ParamString []) test_world =
     (Inr test_km_empty, test_world\<lparr>counter := 209\<rparr>) \<and>
   new_KeyManager test_env (ParamObject (Some []) None None) test_world =
     (Inl (Error ''A password must be provided at initialization''), test_world)"
  by (simp add: new_KeyManager_def construct_generate test_create test_dump_empty initKeyStorage_def
        test_publicKeyId_empty test_recover_empty test_km_empty_def)

theorem bare_empty_string_witness:
  "new_KeyManager test_env (ParamString []) test_world \<noteq>
   new_KeyManager test_env (ParamObject (Some []) None None) test_world"
  using bare_empty_string by simp

text \<open>
  C7 (as amended).  A record that \<open>marshal\<close> returns is an object with
  exactly the two properties \<^verbatim>\<open>publicKeyId\<close> and \<^verbatim>\<open>crypto\<close>; the
  latter is an object with exactly \<^verbatim>\<open>cipher\<close>, \<^verbatim>\<open>cipherText\<close>, \<^verbatim>\<open>cipherParams\<close>
  (an object with the one property \<^verbatim>\<open>iv\<close>), \<^verbatim>\<open>mac\<close>, \<^verbatim>\<open>kdf\<close> and \<^verbatim>\<open>kdfSalt\<close>.
  \<^verbatim>\<open>cipher\<close> is the cipher name, \<^verbatim>\<open>kdf\<close> is \<^verbatim>\<open>scrypt\<close>, and the other five
  are the Base58 texts of the public key, the ciphertext, the iv, the MAC of
  the ciphertext and the salt.  A generated instance stores the record of
  \<open>dump\<close>, and \<open>exportToFile\<close> writes the JSON text of the stored record.
\<close>

theorem keystore_record_shape:
  "(marshal env derivedKey keyObj saltv ivv algo = Inr r \<longrightarrow>
      (\<exists>pub ct ivb mac saltb.
         r = Obj [(''publicKeyId'', Str (Base58_encode env pub)),
                  (''crypto'', Obj [(''cipher'', Str algo),
                                    (''cipherText'', Str (Base58_encode env ct)),
                                    (''cipherParams'', Obj [(''iv'', Str (Base58_encode env ivb))]),
                                    (''mac'', Str (Base58_encode env mac)),
                                    (''kdf'', Str ''scrypt''),
                                    (''kdfSalt'', Str (Base58_encode env saltb))])] \<and>
         publicKey keyObj = Buf pub \<and>
         encrypt env (privateKey keyObj) derivedKey ivv (Str algo) = Inr (Buf ct) \<and>
         ivv = Buf ivb \<and> getMAC env derivedKey (Buf ct) = Inr (Buf mac) \<and> saltv = Buf saltb)) \<and>
   (construct env opts None passwd w = (Inr km, w') \<longrightarrow>
      dump env (Str passwd) (fst (create env opts w)) opts = Inr (p_keyStorage km)) \<and>
   (getKeyStorage this = Inr keyStore \<and> pk this = Str s \<longrightarrow>
      exportToFile env this keyPath w =
        (let outpath = path_join env
               (case keyPath of None \<Rightarrow> ''keyfiles''
                | Some kp \<Rightarrow> if kp = [] then ''keyfiles'' else kp)
               (map (\<lambda>x. if x = CHR '':'' then CHR ''-'' else x)
                  (toISOString env w @ ''-'' @ s @ ''.json''))
         in case writeFileSync env w outpath (JSON_stringify env keyStore) of
              Inl e \<Rightarrow> (Inl e, this, w)
            | Inr w1 \<Rightarrow> (Inr outpath, this, w1)))"
proof (intro conjI impI)
  assume "marshal env derivedKey keyObj saltv ivv algo = Inr r"
  then show "\<exists>pub ct ivb mac saltb.
         r = Obj [(''publicKeyId'', Str (Base58_encode env pub)),
                  (''crypto'', Obj [(''cipher'', Str algo),
                                    (''cipherText'', Str (Base58_encode env ct)),
                                    (''cipherParams'', Obj [(''iv'', Str (Base58_encode env ivb))]),
                                    (''mac'', Str (Base58_encode env mac)),
                                    (''kdf'', Str ''scrypt''),
                                    (''kdfSalt'', Str (Base58_encode env saltb))])] \<and>
         publicKey keyObj = Buf pub \<and>
         encrypt env (privateKey keyObj) derivedKey ivv (Str algo) = Inr (Buf ct) \<and>
         ivv = Buf ivb \<and> getMAC env derivedKey (Buf ct) = Inr (Buf mac) \<and> saltv = Buf saltb"
    by (rule marshal_Inr)
next
  assume "construct env opts None passwd w = (Inr km, w')"
  then show "dump env (Str passwd) (fst (create env opts w)) opts = Inr (p_keyStorage km)"
    by (rule construct_generate_storage)
next
  assume "getKeyStorage this = Inr keyStore \<and> pk this = Str s"
  then show "exportToFile env this keyPath w =
        (let outpath = path_join env
               (case keyPath of None \<Rightarrow> ''keyfiles''
                | Some kp \<Rightarrow> if kp = [] then ''keyfiles'' else kp)
               (map (\<lambda>x. if x = CHR '':'' then CHR ''-'' else x)
                  (toISOString env w @ ''-'' @ s @ ''.json''))
         in case writeFileSync env w outpath (JSON_stringify env keyStore) of
              Inl e \<Rightarrow> (Inl e, this, w)
            | Inr w1 \<Rightarrow> (Inr outpath, this, w1))"
    by (simp add: exportToFile_writes)
qed

theorem keystore_record_shape_witness:
  "marshal test_env (Buf dk0)
     \<lparr>publicKey = Buf [9], privateKey = Buf [5, 6], iv = Undefined, salt = Undefined\<rparr>
     (Buf [9, 8]) (Buf [4]) ''aes-256-ctr'' = Inr test_record \<and>
   (\<exists>pub ct ivb mac saltb.
      test_record =
        Obj [(''publicKeyId'', Str (Base58_encode test_env pub)),
             (''crypto'', Obj [(''cipher'', Str ''aes-256-ctr''),
                               (''cipherText'', Str (Base58_encode test_env ct)),
                               (''cipherParams'', Obj [(''iv'', Str (Base58_encode test_env ivb))]),
                               (''mac'', Str (Base58_encode test_env mac)),
                               (''kdf'', Str ''scrypt''),
                               (''kdfSalt'', Str (Base58_encode test_env saltb))])] \<and>
      Buf [9] = Buf pub \<and> Buf [4] = Buf ivb \<and> Buf [9, 8] = Buf saltb \<and>
      encrypt test_env (Buf [5, 6]) (Buf dk0) (Buf [4]) (Str ''aes-256-ctr'') = Inr (Buf ct) \<and>
      getMAC test_env (Buf dk0) (Buf ct) = Inr (Buf mac)) \<and>
   dump test_env (Str ''pw'') (fst (create test_env defaultOptions test_world)) defaultOptions =
     Inr (p_keyStorage test_km) \<and>
   exportToFile test_env test_km None test_world =
     (Inr ''keyfiles/2020-04-03T10-00-00.000Z-Fax.json'', test_km,
      test_world\<lparr>files := (''keyfiles/2020-04-03T10-00-00.000Z-Fax.json'',
                             json_text test_keyStorage) # files test_world\<rparr>)"
proof -
  have c: "construct test_env defaultOptions None ''pw'' test_world =
           (Inr test_km, test_world\<lparr>counter := 209\<rparr>)"
    using test_new_KeyManager by (simp add: new_KeyManager_def)
  have g: "getKeyStorage test_km = Inr test_keyStorage \<and> pk test_km = Str ''Fax''"
    by (simp add: getKeyStorage_def test_km_def)
  note t = keystore_record_shape
    [where env = test_env and derivedKey = "Buf dk0"
       and keyObj = "\<lparr>publicKey = Buf [9], privateKey = Buf [5, 6], iv = Undefined,
                      salt = Undefined\<rparr>"
       and saltv = "Buf [9, 8]" and ivv = "Buf [4]" and algo = "''aes-256-ctr''"
       and r = test_record and opts = defaultOptions and passwd = "''pw''"
       and w = test_world and km = test_km and w' = "test_world\<lparr>counter := 209\<rparr>"
       and this = test_km and keyStore = test_keyStorage and s = "''Fax''" and keyPath = None]
  from t test_marshal have a: "\<exists>pub ct ivb mac saltb.
      test_record =
        Obj [(''publicKeyId'', Str (Base58_encode test_env pub)),
             (''crypto'', Obj [(''cipher'', Str ''aes-256-ctr''),
                               (''cipherText'', Str (Base58_encode test_env ct)),
                               (''cipherParams'', Obj [(''iv'', Str (Base58_encode test_env ivb))]),
                               (''mac'', Str (Base58_encode test_env mac)),
                               (''kdf'', Str ''scrypt''),
                               (''kdfSalt'', Str (Base58_encode test_env saltb))])] \<and>
      Buf [9] = Buf pub \<and> Buf [4] = Buf ivb \<and> Buf [9, 8] = Buf saltb \<and>
      encrypt test_env (Buf [5, 6]) (Buf dk0) (Buf [4]) (Str ''aes-256-ctr'') = Inr (Buf ct) \<and>
      getMAC test_env (Buf dk0) (Buf ct) = Inr (Buf mac)"
    by (simp del: getMAC_Buf)
  from t c have b: "dump test_env (Str ''pw'') (fst (create test_env defaultOptions test_world))
                      defaultOptions = Inr (p_keyStorage test_km)"
    by blast
  from t g have "exportToFile test_env test_km None test_world =
        (let outpath = path_join test_env
               (case None of None \<Rightarrow> ''keyfiles''
                | Some kp \<Rightarrow> if kp = [] then ''keyfiles'' else kp)
               (map (\<lambda>x. if x = CHR '':'' then CHR ''-'' else x)
                  (toISOString test_env test_world @ ''-'' @ ''Fax'' @ ''.json''))
         in case writeFileSync test_env test_world outpath (JSON_stringify test_env test_keyStorage) of
              Inl e \<Rightarrow> (Inl e, test_km, test_world)
            | Inr w1 \<Rightarrow> (Inr outpath, test_km, w1))"
    by blast
  then have e: "exportToFile test_env test_km None test_world =
     (Inr ''keyfiles/2020-04-03T10-00-00.000Z-Fax.json'', test_km,
      test_world\<lparr>files := (''keyfiles/2020-04-03T10-00-00.000Z-Fax.json'',
                             json_text test_keyStorage) # files test_world\<rparr>)"
    by (simp add: test_clock Let_def)
  from test_marshal a b e show ?thesis
    by (intro conjI)
qed

text \<open>
  The record is not a flat object with the seven fields of the data model: its
  own properties are \<^verbatim>\<open>publicKeyId\<close> and \<^verbatim>\<open>crypto\<close>, and it has no property
  \<^verbatim>\<open>cipherIv\<close>, \<^verbatim>\<open>cipherText\<close> or \<^verbatim>\<open>mac\<close> of its own.
\<close>

theorem marshal_record_is_nested:
  "marshal test_env (Buf dk0)
     \<lparr>publicKey = Buf [9], privateKey = Buf [5, 6], iv = Undefined, salt = Undefined\<rparr>
     (Buf [9, 8]) (Buf [4]) ''aes-256-ctr'' = Inr test_record \<and>
   own_keys test_record = [''publicKeyId'', ''crypto''] \<and>
   own_keys test_record \<noteq>
     [''publicKeyId'', ''cipher'', ''cipherText'', ''cipherIv'', ''mac'', ''kdf'', ''kdfSalt''] \<and>
   get_prop test_record ''cipherIv'' = Inr Undefined \<and>
   get_prop test_record ''cipherText'' = Inr Undefined \<and>
   get_prop test_record ''mac'' = Inr Undefined"
  by (simp add: test_marshal) (simp add: test_record_def own_keys_def)

end
